theory Spec2Isabelle
  imports Main
begin

section \<open>Data model (package models)\<close>

text \<open>
  Instants and durations are integers counting milliseconds: \<open>time.Now()\<close> is the
  clock of the world below, \<open>time.Duration\<close> arithmetic is integer arithmetic.
  Go's \<open>int\<close> fields carry no arithmetic that could overflow here; they are \<open>int\<close>.
\<close>

type_synonym time = int

definition Second :: int where
  "Second = 1000"

definition Minute :: int where
  "Minute = 60 * Second"

record User =
  U_ID :: string
  U_SpotifyID :: string
  U_Email :: string
  U_DisplayName :: string
  U_ProfileURL :: string
  U_SpotifyAccessToken :: string
  U_SpotifyRefreshToken :: string
  U_TokenExpiresAt :: time
  U_IsActive :: bool
  U_IsSharingEnabled :: bool
  U_CreatedAt :: time
  U_UpdatedAt :: time

record Profile =
  P_ID :: string
  P_UserID :: string
  P_Theme :: string
  P_BackgroundColor :: string
  P_TextColor :: string
  P_CustomMessage :: string
  P_ShowStats :: bool
  P_ShowHistory :: bool
  P_AnimationStyle :: string
  P_CreatedAt :: time
  P_UpdatedAt :: time

record Track =
  T_ID :: string
  T_UserID :: string
  T_SpotifyTrackID :: string
  T_Name :: string
  T_Artist :: string
  T_Album :: string
  T_AlbumArtURL :: string
  T_TrackURL :: string
  T_DurationMs :: int
  T_IsCurrentlyPlaying :: bool
  T_PlayedAt :: time
  T_CreatedAt :: time

record ProfileVisit =
  V_ID :: string
  V_UserID :: string
  V_VisitorIP :: string
  V_VisitorUserID :: "string option"
  V_UserAgent :: string
  V_ReferrerURL :: string
  V_StartedAt :: time
  V_EndedAt :: "time option"

record SpotifyCurrentlyPlaying =
  IsPlaying :: bool
  TrackID :: string
  TrackName :: string
  ArtistName :: string
  AlbumName :: string
  AlbumArtURL :: string
  TrackURL :: string
  DurationMs :: int
  ProgressMs :: int

record UserPublic =
  UP_ID :: string
  UP_DisplayName :: string
  UP_ProfileURL :: string

record ProfileResponse =
  R_User :: UserPublic
  R_Profile :: Profile
  R_CurrentTrack :: "Track option"
  R_RecentTracks :: "Track list"
  R_ViewerCount :: int

text \<open>\<open>spotify.TokenResponse\<close> (package spotify).\<close>

record TokenResponse =
  AccessToken :: string
  TokenType :: string
  Scope :: string
  ExpiresIn :: int
  RefreshToken :: string

section \<open>Errors\<close>

text \<open>
  A Go \<open>error\<close> is a value: \<open>errors.New m\<close> is \<open>New m\<close>, \<open>fmt.Errorf("m: %w", e)\<close>
  is \<open>Errorf m e\<close>. \<open>ErrNoRows\<close> is \<open>sql.ErrNoRows\<close>, \<open>RedisNil\<close> is \<open>redis.Nil\<close>
  (the reply to GET on an absent key), \<open>WrongType\<close> the reply of Redis to a command on a
  key of the other kind, \<open>StoreError\<close> any other failure reported by PostgreSQL or Redis,
  \<open>TransportError\<close> a failed write or upgrade on the connection. \<open>Panic m\<close> is not an
  error value of the program but a run-time panic: it unwinds the callers up to gin's
  \<open>Recovery\<close> middleware, and no \<open>if err != nil\<close> sees it.
  A function returning \<open>error\<close> alone is modelled with \<open>error option\<close> (\<open>None\<close> is
  \<open>nil\<close>), one returning \<open>(T, error)\<close> with \<open>error + T\<close>.
\<close>

datatype error =
    New string
  | Errorf string error
  | ErrNoRows
  | RedisNil
  | WrongType
  | StoreError
  | TransportError
  | Panic string

definition is_panic :: "error \<Rightarrow> bool" where
  "is_panic err = (case err of Panic m \<Rightarrow> True | _ \<Rightarrow> False)"

section \<open>The world: clock, Redis, PostgreSQL, upstream provider\<close>

text \<open>
  The services mutate two stores. Redis is one keyspace whose entries are strings or sets,
  each with an optional absolute expiry instant, together with the record of every PUBLISH
  and SUBSCRIBE. PostgreSQL is one row list per table. \<open>polled\<close> records the access token of
  every poll sent to the provider.

  Whether a store command or a transport operation succeeds is not decided by the program.
  \<open>faults\<close> is the fault plan of the run: each such operation consumes the head of the list
  and fails iff it is \<open>True\<close>; the empty plan means that nothing fails any more.
\<close>

datatype rvalue = RString string | RSet "string list"

record world =
  clock :: time
  faults :: "bool list"
  redis_keys :: "string \<rightharpoonup> rvalue \<times> time option"
  published :: "(string \<times> string) list"
  subscribed :: "string list"
  users :: "User list"
  profiles :: "Profile list"
  tracks :: "Track list"
  profile_visits :: "ProfileVisit list"
  polled :: "string list"

text \<open>
  A decoded JSON value, as \<open>json.Decoder\<close> gives it to the program in an
  \<open>interface{}\<close>: \<open>nil\<close>, \<open>bool\<close>, \<open>float64\<close> (the numbers of the replies are
  integers, and are kept as such), \<open>string\<close>, \<open>[]interface{}\<close> and
  \<open>map[string]interface{}\<close>, the last as an association list read with \<open>map_of\<close>.
\<close>

datatype json =
    JNull
  | JBool bool
  | JNumber int
  | JString string
  | JArray "json list"
  | JObject "(string \<times> json) list"

text \<open>
  What the program calls outside the repository and the stores: the text layer of
  \<open>encoding/json\<close> (from a value to its text and back), the provider's token endpoint
  (\<open>Client.RefreshAccessToken\<close>, by refresh token) and its currently-playing endpoint
  (\<open>Client.GetCurrentlyPlaying\<close>, by access token: an error, \<open>nil\<close> for 204 No Content,
  or the decoded reply).
\<close>

record external =
  json_encode :: "json \<Rightarrow> error + string"
  json_decode :: "string \<Rightarrow> error + json"
  RefreshAccessToken :: "string \<Rightarrow> error + TokenResponse"
  GetCurrentlyPlaying :: "string \<Rightarrow> error + (string \<times> json) list option"

definition next_fault :: "world \<Rightarrow> bool \<times> world" where
  "next_fault w =
     (case faults w of
        [] \<Rightarrow> (False, w)
      | f # fs \<Rightarrow> (f, w\<lparr>faults := fs\<rparr>))"

text \<open>An operation takes no time; between operations \<open>d\<close> milliseconds may pass.\<close>

definition advance :: "nat \<Rightarrow> world \<Rightarrow> world" where
  "advance d w = w\<lparr>clock := clock w + int d\<rparr>"

subsection \<open>RedisClient (internal/database)\<close>

text \<open>
  The wrappers forward to go-redis. An entry whose expiry instant has been reached is
  absent for every command (\<open>live\<close>). SET replaces the entry whatever it held; an
  expiration of zero means no expiry. SADD creates the set when the key is absent and never
  sets an expiry; SREM deletes the key with the last member.
\<close>

definition live :: "world \<Rightarrow> string \<Rightarrow> rvalue option" where
  "live w key =
     (case redis_keys w key of
        None \<Rightarrow> None
      | Some (v, None) \<Rightarrow> Some v
      | Some (v, Some e) \<Rightarrow> if clock w < e then Some v else None)"

definition redis_Set :: "string \<Rightarrow> string \<Rightarrow> int \<Rightarrow> world \<Rightarrow> error option \<times> world" where
  "redis_Set key v expiration w =
     (case next_fault w of
        (True, w') \<Rightarrow> (Some StoreError, w')
      | (False, w') \<Rightarrow>
          (None, w'\<lparr>redis_keys := (redis_keys w')(key \<mapsto>
             (RString v, if expiration = 0 then None else Some (clock w' + expiration)))\<rparr>))"

definition redis_Get :: "string \<Rightarrow> world \<Rightarrow> (error + string) \<times> world" where
  "redis_Get key w =
     (case next_fault w of
        (True, w') \<Rightarrow> (Inl StoreError, w')
      | (False, w') \<Rightarrow>
          (case live w' key of
             None \<Rightarrow> (Inl RedisNil, w')
           | Some (RString s) \<Rightarrow> (Inr s, w')
           | Some (RSet ms) \<Rightarrow> (Inl WrongType, w')))"

definition redis_Delete :: "string \<Rightarrow> world \<Rightarrow> error option \<times> world" where
  "redis_Delete key w =
     (case next_fault w of
        (True, w') \<Rightarrow> (Some StoreError, w')
      | (False, w') \<Rightarrow> (None, w'\<lparr>redis_keys := (redis_keys w')(key := None)\<rparr>))"

definition redis_Publish :: "string \<Rightarrow> string \<Rightarrow> world \<Rightarrow> error option \<times> world" where
  "redis_Publish channel message w =
     (case next_fault w of
        (True, w') \<Rightarrow> (Some StoreError, w')
      | (False, w') \<Rightarrow> (None, w'\<lparr>published := published w' @ [(channel, message)]\<rparr>))"

definition redis_Subscribe :: "string \<Rightarrow> world \<Rightarrow> world" where
  "redis_Subscribe channel w = w\<lparr>subscribed := subscribed w @ [channel]\<rparr>"

definition expiry_of :: "world \<Rightarrow> string \<Rightarrow> time option" where
  "expiry_of w key = (case redis_keys w key of None \<Rightarrow> None | Some (v, e) \<Rightarrow> e)"

definition redis_AddToSet :: "string \<Rightarrow> string \<Rightarrow> world \<Rightarrow> error option \<times> world" where
  "redis_AddToSet key member w =
     (case next_fault w of
        (True, w') \<Rightarrow> (Some StoreError, w')
      | (False, w') \<Rightarrow>
          (case live w' key of
             None \<Rightarrow> (None, w'\<lparr>redis_keys := (redis_keys w')(key \<mapsto> (RSet [member], None))\<rparr>)
           | Some (RString s) \<Rightarrow> (Some WrongType, w')
           | Some (RSet ms) \<Rightarrow>
               (None, w'\<lparr>redis_keys := (redis_keys w')(key \<mapsto>
                  (RSet (List.insert member ms), expiry_of w' key))\<rparr>)))"

definition redis_RemoveFromSet :: "string \<Rightarrow> string \<Rightarrow> world \<Rightarrow> error option \<times> world" where
  "redis_RemoveFromSet key member w =
     (case next_fault w of
        (True, w') \<Rightarrow> (Some StoreError, w')
      | (False, w') \<Rightarrow>
          (case live w' key of
             None \<Rightarrow> (None, w')
           | Some (RString s) \<Rightarrow> (Some WrongType, w')
           | Some (RSet ms) \<Rightarrow>
               (if removeAll member ms = []
                then (None, w'\<lparr>redis_keys := (redis_keys w')(key := None)\<rparr>)
                else (None, w'\<lparr>redis_keys := (redis_keys w')(key \<mapsto>
                        (RSet (removeAll member ms), expiry_of w' key))\<rparr>))))"

definition redis_GetSetSize :: "string \<Rightarrow> world \<Rightarrow> (error + int) \<times> world" where
  "redis_GetSetSize key w =
     (case next_fault w of
        (True, w') \<Rightarrow> (Inl StoreError, w')
      | (False, w') \<Rightarrow>
          (case live w' key of
             None \<Rightarrow> (Inr 0, w')
           | Some (RString s) \<Rightarrow> (Inl WrongType, w')
           | Some (RSet ms) \<Rightarrow> (Inr (int (length ms)), w')))"

subsection \<open>sqlx on PostgreSQL\<close>

text \<open>
  \<open>GetContext\<close> scans the first row of the result and reports \<open>sql.ErrNoRows\<close> when
  there is none; \<open>ExecContext\<close> and \<open>NamedExecContext\<close> change the table. Every
  statement consumes one entry of the fault plan.
\<close>

definition db_Get :: "('a \<Rightarrow> bool) \<Rightarrow> 'a list \<Rightarrow> world \<Rightarrow> (error + 'a) \<times> world" where
  "db_Get cond rows w =
     (case next_fault w of
        (True, w') \<Rightarrow> (Inl StoreError, w')
      | (False, w') \<Rightarrow>
          (case find cond rows of
             None \<Rightarrow> (Inl ErrNoRows, w')
           | Some r \<Rightarrow> (Inr r, w')))"

definition db_Exec :: "(world \<Rightarrow> world) \<Rightarrow> world \<Rightarrow> error option \<times> world" where
  "db_Exec statement w =
     (case next_fault w of
        (True, w') \<Rightarrow> (Some StoreError, w')
      | (False, w') \<Rightarrow> (None, statement w'))"

section \<open>UserService: presence\<close>

definition GetActiveUserCount :: "string \<Rightarrow> world \<Rightarrow> (error + int) \<times> world" where
  "GetActiveUserCount userID w =
     (case redis_GetSetSize (''visitors:'' @ userID) w of
        (Inl err, w') \<Rightarrow> (Inl (Errorf ''failed to get active viewer count'' err), w')
      | (Inr count, w') \<Rightarrow> (Inr count, w'))"

text \<open>
  \<open>visitID\<close> is the value \<open>uuid.New().String()\<close> returned for this call. Failures of the
  two Redis commands are logged and the visit is still reported as recorded.
\<close>

definition RecordProfileVisit ::
  "string \<Rightarrow> string \<Rightarrow> string \<Rightarrow> string \<Rightarrow> string \<Rightarrow> string option \<Rightarrow> world
     \<Rightarrow> (error + string) \<times> world" where
  "RecordProfileVisit visitID userID visitorIP userAgent referrerURL visitorUserID w =
     (let visit = \<lparr>V_ID = visitID, V_UserID = userID, V_VisitorIP = visitorIP,
                    V_VisitorUserID = visitorUserID, V_UserAgent = userAgent,
                    V_ReferrerURL = referrerURL, V_StartedAt = clock w, V_EndedAt = None\<rparr>
      in case db_Exec (\<lambda>d. d\<lparr>profile_visits := profile_visits d @ [visit]\<rparr>) w of
           (Some err, w1) \<Rightarrow> (Inl (Errorf ''failed to record profile visit'' err), w1)
         | (None, w1) \<Rightarrow>
             (let w2 = snd (redis_Set (''visitor:'' @ visitID) ''1'' (5 * Minute) w1);
                  w3 = snd (redis_AddToSet (''visitors:'' @ userID) visitID w2)
              in (Inr visitID, w3)))"

definition EndProfileVisit :: "string \<Rightarrow> world \<Rightarrow> error option \<times> world" where
  "EndProfileVisit visitID w =
     (case db_Get (\<lambda>v. V_ID v = visitID) (profile_visits w) w of
        (Inl err, w1) \<Rightarrow> (Some (Errorf ''failed to get profile visit'' err), w1)
      | (Inr visit, w1) \<Rightarrow>
          (case db_Exec (\<lambda>d. d\<lparr>profile_visits :=
                   map (\<lambda>v. if V_ID v = visitID then v\<lparr>V_EndedAt := Some (clock w)\<rparr> else v)
                       (profile_visits d)\<rparr>) w1 of
             (Some err, w2) \<Rightarrow> (Some (Errorf ''failed to update profile visit'' err), w2)
           | (None, w2) \<Rightarrow>
               (let w3 = snd (redis_RemoveFromSet (''visitors:'' @ V_UserID visit) visitID w2);
                    w4 = snd (redis_Delete (''visitor:'' @ visitID) w3)
                in (None, w4))))"

definition RenewVisitorActivity :: "string \<Rightarrow> world \<Rightarrow> error option \<times> world" where
  "RenewVisitorActivity visitID w = redis_Set (''visitor:'' @ visitID) ''1'' (5 * Minute) w"

text \<open>The state of a fresh deployment at instant 0: empty stores, nothing scheduled to fail.\<close>

definition world0 :: world where
  "world0 = \<lparr>clock = 0, faults = [], redis_keys = Map.empty, published = [], subscribed = [],
             users = [], profiles = [], tracks = [], profile_visits = [], polled = []\<rparr>"

section \<open>SpotifyService: now-playing cache and change events\<close>

definition T_cache :: int where
  "T_cache = 2 * Minute"

definition T_presence :: int where
  "T_presence = 5 * Minute"

subsection \<open>encoding/json on SpotifyCurrentlyPlaying\<close>

text \<open>
  \<open>v, _ := x.(T)\<close>: the value when \<open>x\<close> is present and of type \<open>T\<close>, the zero value of
  \<open>T\<close> otherwise.
\<close>

definition as_bool :: "json option \<Rightarrow> bool" where
  "as_bool x = (case x of Some (JBool b) \<Rightarrow> b | _ \<Rightarrow> False)"

definition as_string :: "json option \<Rightarrow> string" where
  "as_string x = (case x of Some (JString s) \<Rightarrow> s | _ \<Rightarrow> [])"

definition as_number :: "json option \<Rightarrow> int" where
  "as_number x = (case x of Some (JNumber n) \<Rightarrow> n | _ \<Rightarrow> 0)"

text \<open>
  \<open>json.Marshal\<close> of a \<open>SpotifyCurrentlyPlaying\<close>: an object with one member per field,
  named by the field's \<open>json\<close> tag, in the order of the declaration.
\<close>

definition to_json :: "SpotifyCurrentlyPlaying \<Rightarrow> json" where
  "to_json t =
     JObject [(''is_playing'', JBool (IsPlaying t)), (''track_id'', JString (TrackID t)),
              (''track_name'', JString (TrackName t)), (''artist_name'', JString (ArtistName t)),
              (''album_name'', JString (AlbumName t)), (''album_art_url'', JString (AlbumArtURL t)),
              (''track_url'', JString (TrackURL t)), (''duration_ms'', JNumber (DurationMs t)),
              (''progress_ms'', JNumber (ProgressMs t))]"

definition json_Marshal :: "external \<Rightarrow> SpotifyCurrentlyPlaying \<Rightarrow> error + string" where
  "json_Marshal E track = json_encode E (to_json track)"

text \<open>
  \<open>json.Unmarshal\<close> into a zero \<open>SpotifyCurrentlyPlaying\<close>: the text must hold an object
  (or \<open>null\<close>, which changes nothing); a member that is absent or \<open>null\<close> leaves its
  field zero, and a member of another type than its field is an error. Members are looked
  up by the exact tag.
\<close>

definition fits_bool :: "json option \<Rightarrow> bool" where
  "fits_bool x = (case x of None \<Rightarrow> True | Some JNull \<Rightarrow> True | Some (JBool b) \<Rightarrow> True | _ \<Rightarrow> False)"

definition fits_string :: "json option \<Rightarrow> bool" where
  "fits_string x = (case x of None \<Rightarrow> True | Some JNull \<Rightarrow> True | Some (JString s) \<Rightarrow> True | _ \<Rightarrow> False)"

definition fits_number :: "json option \<Rightarrow> bool" where
  "fits_number x = (case x of None \<Rightarrow> True | Some JNull \<Rightarrow> True | Some (JNumber n) \<Rightarrow> True | _ \<Rightarrow> False)"

definition of_json :: "json \<Rightarrow> error + SpotifyCurrentlyPlaying" where
  "of_json j =
     (case j of
        JObject members \<Rightarrow>
          (if fits_bool (map_of members ''is_playing'') \<and> fits_string (map_of members ''track_id'')
              \<and> fits_string (map_of members ''track_name'')
              \<and> fits_string (map_of members ''artist_name'')
              \<and> fits_string (map_of members ''album_name'')
              \<and> fits_string (map_of members ''album_art_url'')
              \<and> fits_string (map_of members ''track_url'')
              \<and> fits_number (map_of members ''duration_ms'')
              \<and> fits_number (map_of members ''progress_ms'')
           then Inr \<lparr>IsPlaying = as_bool (map_of members ''is_playing''),
                     TrackID = as_string (map_of members ''track_id''),
                     TrackName = as_string (map_of members ''track_name''),
                     ArtistName = as_string (map_of members ''artist_name''),
                     AlbumName = as_string (map_of members ''album_name''),
                     AlbumArtURL = as_string (map_of members ''album_art_url''),
                     TrackURL = as_string (map_of members ''track_url''),
                     DurationMs = as_number (map_of members ''duration_ms''),
                     ProgressMs = as_number (map_of members ''progress_ms'')\<rparr>
           else Inl (New ''json: cannot unmarshal value into Go struct field''))
      | JNull \<Rightarrow>
          Inr \<lparr>IsPlaying = False, TrackID = [], TrackName = [], ArtistName = [], AlbumName = [],
               AlbumArtURL = [], TrackURL = [], DurationMs = 0, ProgressMs = 0\<rparr>
      | _ \<Rightarrow> Inl (New ''json: cannot unmarshal value into Go value of type models.SpotifyCurrentlyPlaying''))"

definition json_Unmarshal :: "external \<Rightarrow> string \<Rightarrow> error + SpotifyCurrentlyPlaying" where
  "json_Unmarshal E text' =
     (case json_decode E text' of
        Inl err \<Rightarrow> Inl err
      | Inr j \<Rightarrow> of_json j)"

subsection \<open>Cache, publish, subscribe\<close>

definition CacheCurrentlyPlaying ::
  "external \<Rightarrow> string \<Rightarrow> SpotifyCurrentlyPlaying \<Rightarrow> world \<Rightarrow> error option \<times> world" where
  "CacheCurrentlyPlaying E userID track w =
     (case json_Marshal E track of
        Inl err \<Rightarrow> (Some err, w)
      | Inr trackJSON \<Rightarrow> redis_Set (''track:current:'' @ userID) trackJSON (2 * Minute) w)"

definition GetCachedCurrentlyPlaying ::
  "external \<Rightarrow> string \<Rightarrow> world \<Rightarrow> (error + SpotifyCurrentlyPlaying) \<times> world" where
  "GetCachedCurrentlyPlaying E userID w =
     (case redis_Get (''track:current:'' @ userID) w of
        (Inl err, w') \<Rightarrow> (Inl err, w')
      | (Inr trackJSON, w') \<Rightarrow>
          (case json_Unmarshal E trackJSON of
             Inl err \<Rightarrow> (Inl err, w')
           | Inr track \<Rightarrow> (Inr track, w')))"

definition NotifyTrackChange ::
  "external \<Rightarrow> string \<Rightarrow> SpotifyCurrentlyPlaying \<Rightarrow> world \<Rightarrow> error option \<times> world" where
  "NotifyTrackChange E userID track w =
     (case json_Marshal E track of
        Inl err \<Rightarrow> (Some err, w)
      | Inr trackJSON \<Rightarrow> redis_Publish (''track:updates:'' @ userID) trackJSON w)"

definition SubscribeToTrackUpdates :: "string \<Rightarrow> world \<Rightarrow> world" where
  "SubscribeToTrackUpdates userID w = redis_Subscribe (''track:updates:'' @ userID) w"

subsection \<open>Polling the provider\<close>

text \<open>The album art: the second image (medium size), or the only one.\<close>

definition album_art_url :: "(string \<times> json) list \<Rightarrow> string" where
  "album_art_url album =
     (case map_of album ''images'' of
        Some (JArray images) \<Rightarrow>
          (if images \<noteq> [] then
             (case images ! (if length images = 1 then 0 else 1) of
                JObject img \<Rightarrow> as_string (map_of img ''url'')
              | _ \<Rightarrow> [])
           else [])
      | _ \<Rightarrow> [])"

definition first_artist_name :: "(string \<times> json) list \<Rightarrow> string" where
  "first_artist_name item =
     (case map_of item ''artists'' of
        Some (JArray artists) \<Rightarrow>
          (if artists \<noteq> [] then
             (case hd artists of
                JObject artist \<Rightarrow> as_string (map_of artist ''name'')
              | _ \<Rightarrow> [])
           else [])
      | _ \<Rightarrow> [])"

text \<open>
  \<open>GetCurrentlyPlayingTrack\<close> after the call of the client (lines 75 to 134). The type
  assertion on \<open>item["external_urls"]\<close> is the one-value form: it panics when the value
  is not an object.
\<close>

definition extract_track :: "(string \<times> json) list option \<Rightarrow> error + SpotifyCurrentlyPlaying" where
  "extract_track result' =
     (case result' of
        None \<Rightarrow>
          Inr \<lparr>IsPlaying = False, TrackID = [], TrackName = [], ArtistName = [], AlbumName = [],
               AlbumArtURL = [], TrackURL = [], DurationMs = 0, ProgressMs = 0\<rparr>
      | Some result \<Rightarrow>
          (case map_of result ''item'' of
             Some (JObject item) \<Rightarrow>
               (case map_of item ''external_urls'' of
                  Some (JObject external_urls) \<Rightarrow>
                    (case map_of item ''album'' of
                       Some (JObject album) \<Rightarrow>
                         Inr \<lparr>IsPlaying = as_bool (map_of result ''is_playing''),
                              TrackID = as_string (map_of item ''id''),
                              TrackName = as_string (map_of item ''name''),
                              ArtistName = first_artist_name item,
                              AlbumName = as_string (map_of album ''name''),
                              AlbumArtURL = album_art_url album,
                              TrackURL = as_string (map_of external_urls ''spotify''),
                              DurationMs = as_number (map_of item ''duration_ms''),
                              ProgressMs = as_number (map_of result ''progress_ms'')\<rparr>
                     | _ \<Rightarrow> Inl (New ''invalid album format''))
                | _ \<Rightarrow> Inl (Panic ''interface conversion: interface {} is not map[string]interface {}''))
           | _ \<Rightarrow> Inl (New ''invalid response format'')))"

text \<open>What \<open>GetCurrentlyPlayingTrack\<close> returns for an access token.\<close>

definition CurrentlyPlayingTrack :: "external \<Rightarrow> string \<Rightarrow> error + SpotifyCurrentlyPlaying" where
  "CurrentlyPlayingTrack E accessToken =
     (case GetCurrentlyPlaying E accessToken of
        Inl err \<Rightarrow> Inl err
      | Inr result \<Rightarrow> extract_track result)"

text \<open>A poll of the provider with an access token; the token used is recorded.\<close>

definition GetCurrentlyPlayingTrack ::
  "external \<Rightarrow> string \<Rightarrow> world \<Rightarrow> (error + SpotifyCurrentlyPlaying) \<times> world" where
  "GetCurrentlyPlayingTrack E accessToken w =
     (CurrentlyPlayingTrack E accessToken, w\<lparr>polled := polled w @ [accessToken]\<rparr>)"

subsection \<open>Track history query\<close>

text \<open>
  The query of \<open>GetTrackHistory\<close> and \<open>GetRecentTracks\<close>: the owner's rows, latest
  \<open>played_at\<close> first, at most \<open>limit\<close> of them. PostgreSQL rejects a negative LIMIT.
\<close>

definition select_recent :: "string \<Rightarrow> int \<Rightarrow> world \<Rightarrow> (error + Track list) \<times> world" where
  "select_recent userID limit w =
     (case next_fault w of
        (True, w') \<Rightarrow> (Inl StoreError, w')
      | (False, w') \<Rightarrow>
          (if limit < 0 then (Inl StoreError, w')
           else (Inr (take (nat limit)
                   (sort_key (\<lambda>t. - T_PlayedAt t) (filter (\<lambda>t. T_UserID t = userID) (tracks w')))),
                 w')))"

text \<open>
  A \<open>context.Context\<close> as far as \<open>ctx.Value\<close> with a string key sees it. \<open>SqlxDB\<close> is a
  \<open>*sqlx.DB\<close> handle, \<open>OtherValue\<close> a value of any other type.
\<close>

datatype ctx_value = SqlxDB | OtherValue string

type_synonym ctx = "string \<rightharpoonup> ctx_value"

definition GetTrackHistory ::
  "ctx \<Rightarrow> string \<Rightarrow> int \<Rightarrow> world \<Rightarrow> (error + Track list) \<times> world" where
  "GetTrackHistory ctx userID limit w =
     (case ctx ''db'' of
        Some SqlxDB \<Rightarrow>
          (case select_recent userID limit w of
             (Inl err, w') \<Rightarrow> (Inl (Errorf ''failed to get track history'' err), w')
           | (Inr ts, w') \<Rightarrow> (Inr ts, w'))
      | _ \<Rightarrow> (Inl (New ''database connection not found in context''), w))"

section \<open>UserService: users and tokens\<close>

definition GetUserByID :: "string \<Rightarrow> world \<Rightarrow> (error + User) \<times> world" where
  "GetUserByID id' w =
     (case db_Get (\<lambda>u. U_ID u = id') (users w) w of
        (Inl err, w') \<Rightarrow> (Inl (Errorf ''failed to get user'' err), w')
      | (Inr user, w') \<Rightarrow> (Inr user, w'))"

definition GetUserByProfileURL :: "string \<Rightarrow> world \<Rightarrow> (error + User) \<times> world" where
  "GetUserByProfileURL profileURL w =
     (case db_Get (\<lambda>u. U_ProfileURL u = profileURL) (users w) w of
        (Inl err, w') \<Rightarrow> (Inl (Errorf ''failed to get user by profile URL'' err), w')
      | (Inr user, w') \<Rightarrow> (Inr user, w'))"

definition IsTokenExpired :: "User \<Rightarrow> world \<Rightarrow> bool" where
  "IsTokenExpired user w \<longleftrightarrow> U_TokenExpiresAt user < clock w + 5 * Minute"

definition UpdateUserToken :: "string \<Rightarrow> string \<Rightarrow> int \<Rightarrow> world \<Rightarrow> error option \<times> world" where
  "UpdateUserToken userID accessToken expiresIn w =
     (case db_Exec (\<lambda>d. d\<lparr>users :=
              map (\<lambda>u. if U_ID u = userID
                        then u\<lparr>U_SpotifyAccessToken := accessToken,
                               U_TokenExpiresAt := clock w + expiresIn * Second,
                               U_UpdatedAt := clock w\<rparr>
                        else u) (users d)\<rparr>) w of
        (Some err, w') \<Rightarrow> (Some (Errorf ''failed to update user token'' err), w')
      | (None, w') \<Rightarrow> (None, w'))"

section \<open>ProfileService\<close>

definition GetProfile :: "string \<Rightarrow> world \<Rightarrow> (error + Profile) \<times> world" where
  "GetProfile userID w =
     (case db_Get (\<lambda>p. P_UserID p = userID) (profiles w) w of
        (Inl err, w') \<Rightarrow> (Inl (Errorf ''failed to get profile'' err), w')
      | (Inr profile, w') \<Rightarrow> (Inr profile, w'))"

definition GetRecentTracks :: "string \<Rightarrow> int \<Rightarrow> world \<Rightarrow> (error + Track list) \<times> world" where
  "GetRecentTracks userID limit w =
     (case select_recent userID limit w of
        (Inl err, w') \<Rightarrow> (Inl (Errorf ''failed to get recent tracks'' err), w')
      | (Inr ts, w') \<Rightarrow> (Inr ts, w'))"

text \<open>
  The three statements of \<open>SaveTrackToHistory\<close> after the lookup: touch the row found,
  flip the owner's playing rows, insert the new row.
\<close>

definition touch_played_at :: "string \<Rightarrow> time \<Rightarrow> Track list \<Rightarrow> Track list" where
  "touch_played_at id' now ts = map (\<lambda>t. if T_ID t = id' then t\<lparr>T_PlayedAt := now\<rparr> else t) ts"

definition flip_playing :: "string \<Rightarrow> Track list \<Rightarrow> Track list" where
  "flip_playing userID ts =
     map (\<lambda>t. if T_UserID t = userID \<and> T_IsCurrentlyPlaying t
              then t\<lparr>T_IsCurrentlyPlaying := False\<rparr> else t) ts"

definition SaveTrackToHistory :: "Track \<Rightarrow> world \<Rightarrow> error option \<times> world" where
  "SaveTrackToHistory track w =
     (case db_Get (\<lambda>t. T_UserID t = T_UserID track \<and> T_SpotifyTrackID t = T_SpotifyTrackID track
                        \<and> T_IsCurrentlyPlaying t) (tracks w) w of
        (Inr existingTrack, w1) \<Rightarrow>
          (case db_Exec (\<lambda>d. d\<lparr>tracks := touch_played_at (T_ID existingTrack) (clock w) (tracks d)\<rparr>) w1 of
             (Some err, w2) \<Rightarrow> (Some (Errorf ''failed to update track'' err), w2)
           | (None, w2) \<Rightarrow> (None, w2))
      | (Inl _, w1) \<Rightarrow>
          (case db_Exec (\<lambda>d. d\<lparr>tracks := flip_playing (T_UserID track) (tracks d)\<rparr>) w1 of
             (Some err, w2) \<Rightarrow> (Some (Errorf ''failed to update currently playing tracks'' err), w2)
           | (None, w2) \<Rightarrow>
               (case db_Exec (\<lambda>d. d\<lparr>tracks := tracks d @ [track]\<rparr>) w2 of
                  (Some err, w3) \<Rightarrow> (Some (Errorf ''failed to insert track'' err), w3)
                | (None, w3) \<Rightarrow> (None, w3))))"

text \<open>The zero \<open>time.Time\<close> (1 January of year 1), left in fields the caller does not set.\<close>

definition zero_time :: time where
  "zero_time = - 62135596800000"

text \<open>The \<open>models.Track\<close> that \<open>GetProfileResponse\<close> builds from a snapshot.\<close>

definition track_of_snapshot :: "string \<Rightarrow> SpotifyCurrentlyPlaying \<Rightarrow> time \<Rightarrow> Track" where
  "track_of_snapshot userID s now =
     \<lparr>T_ID = [], T_UserID = userID, T_SpotifyTrackID = TrackID s, T_Name = TrackName s,
      T_Artist = ArtistName s, T_Album = AlbumName s, T_AlbumArtURL = AlbumArtURL s,
      T_TrackURL = TrackURL s, T_DurationMs = DurationMs s, T_IsCurrentlyPlaying = True,
      T_PlayedAt = now, T_CreatedAt = zero_time\<rparr>"

text \<open>
  \<open>GetProfileResponse\<close>, lines 96 to 113: the token refresh of the page-load path. A failed
  refresh is logged and the user is kept as it is.
\<close>

definition profile_refresh_token :: "external \<Rightarrow> User \<Rightarrow> world \<Rightarrow> User \<times> world" where
  "profile_refresh_token E user w =
     (if IsTokenExpired user w then
        (case RefreshAccessToken E (U_SpotifyRefreshToken user) of
           Inl err \<Rightarrow> (user, w)
         | Inr tokenResp \<Rightarrow>
             (user\<lparr>U_SpotifyAccessToken := AccessToken tokenResp,
                    U_TokenExpiresAt := clock w + ExpiresIn tokenResp * Second\<rparr>,
              snd (UpdateUserToken (U_ID user) (AccessToken tokenResp) (ExpiresIn tokenResp) w)))
      else (user, w))"

text \<open>
  \<open>GetProfileResponse\<close>, lines 89 to 161: the current track of the response. A failed
  poll is logged and leaves no current track; a panic of the poll ends the function.
\<close>

definition profile_current_track ::
  "external \<Rightarrow> User \<Rightarrow> world \<Rightarrow> (error + Track option) \<times> world" where
  "profile_current_track E user w =
     (case GetCachedCurrentlyPlaying E (U_ID user) w of
        (Inl err, w1) \<Rightarrow>
          (if U_IsSharingEnabled user then
             (case profile_refresh_token E user w1 of
                (user', w2) \<Rightarrow>
                  (case GetCurrentlyPlayingTrack E (U_SpotifyAccessToken user') w2 of
                     (Inl err, w3) \<Rightarrow> (if is_panic err then (Inl err, w3) else (Inr None, w3))
                   | (Inr spotifyTrack, w3) \<Rightarrow>
                       (if IsPlaying spotifyTrack then
                          (let w4 = snd (CacheCurrentlyPlaying E (U_ID user) spotifyTrack w3);
                               currentTrack = track_of_snapshot (U_ID user) spotifyTrack (clock w);
                               w5 = snd (SaveTrackToHistory currentTrack w4);
                               w6 = snd (NotifyTrackChange E (U_ID user) spotifyTrack w5)
                           in (Inr (Some currentTrack), w6))
                        else (Inr None, w3))))
           else (Inr None, w1))
      | (Inr cachedTrack, w1) \<Rightarrow>
          (if IsPlaying cachedTrack
           then (Inr (Some (track_of_snapshot (U_ID user) cachedTrack (clock w))), w1)
           else (Inr None, w1)))"

definition GetProfileResponse ::
  "external \<Rightarrow> User \<Rightarrow> world \<Rightarrow> (error + ProfileResponse) \<times> world" where
  "GetProfileResponse E user w =
     (case GetProfile (U_ID user) w of
        (Inl err, w1) \<Rightarrow> (Inl err, w1)
      | (Inr profile, w1) \<Rightarrow>
          (case profile_current_track E user w1 of
             (Inl panic, w2) \<Rightarrow> (Inl panic, w2)
           | (Inr currentTrack, w2) \<Rightarrow>
               (case (if P_ShowHistory profile
                      then (case GetRecentTracks (U_ID user) 10 w2 of
                              (Inl err, w3) \<Rightarrow> ([], w3)
                            | (Inr ts, w3) \<Rightarrow> (ts, w3))
                      else ([], w2)) of
                  (recentTracks, w3) \<Rightarrow>
                    (case (if P_ShowStats profile
                           then (case GetActiveUserCount (U_ID user) w3 of
                                   (Inl err, w4) \<Rightarrow> (0, w4)
                                 | (Inr count, w4) \<Rightarrow> (count, w4))
                           else (0, w3)) of
                       (viewerCount, w4) \<Rightarrow>
                         (Inr \<lparr>R_User = \<lparr>UP_ID = U_ID user, UP_DisplayName = U_DisplayName user,
                                          UP_ProfileURL = U_ProfileURL user\<rparr>,
                               R_Profile = profile, R_CurrentTrack = currentTrack,
                               R_RecentTracks = recentTracks, R_ViewerCount = viewerCount\<rparr>,
                          w4)))))"

section \<open>Handlers (internal/handlers)\<close>

text \<open>
  What a handler writes with \<open>c.JSON\<close>: the status and the body, \<open>gin.H{"error": m}\<close>
  being \<open>ErrorBody m\<close>. \<open>AbortWithStatus 500\<close> is the answer of gin's \<open>Recovery\<close>
  middleware to a panic in a handler.
\<close>

datatype body =
    ErrorBody string
  | TrackBody SpotifyCurrentlyPlaying
  | TracksBody "Track list"

datatype response = JSON nat body | AbortWithStatus nat

text \<open>
  Lines 150 to 167 of \<open>getCurrentTrack\<close>, repeated as lines 236 to 253 of
  \<open>refreshCurrentTrack\<close>: refresh an expired token; a failed refresh ends the request,
  a failed \<open>UpdateUserToken\<close> is logged only.
\<close>

definition refresh_if_expired :: "external \<Rightarrow> User \<Rightarrow> world \<Rightarrow> (response + User) \<times> world" where
  "refresh_if_expired E user w =
     (if IsTokenExpired user w then
        (case RefreshAccessToken E (U_SpotifyRefreshToken user) of
           Inl err \<Rightarrow> (Inl (JSON 500 (ErrorBody ''Failed to refresh Spotify access'')), w)
         | Inr tokenResp \<Rightarrow>
             (Inr (user\<lparr>U_SpotifyAccessToken := AccessToken tokenResp\<rparr>),
              snd (UpdateUserToken (U_ID user) (AccessToken tokenResp) (ExpiresIn tokenResp) w)))
      else (Inr user, w))"

text \<open>\<open>userID\<close> is \<open>c.GetString("user_id")\<close>, stored by the authentication middleware.\<close>

definition getCurrentTrack :: "external \<Rightarrow> string \<Rightarrow> world \<Rightarrow> response \<times> world" where
  "getCurrentTrack E userID w =
     (case GetUserByID userID w of
        (Inl err, w1) \<Rightarrow> (JSON 500 (ErrorBody ''Failed to get user''), w1)
      | (Inr user0, w1) \<Rightarrow>
          (if \<not> U_IsSharingEnabled user0
           then (JSON 403 (ErrorBody ''Music sharing is disabled''), w1)
           else
             (case refresh_if_expired E user0 w1 of
                (Inl resp, w2) \<Rightarrow> (resp, w2)
              | (Inr user, w2) \<Rightarrow>
                  (case GetCachedCurrentlyPlaying E (U_ID user) w2 of
                     (cached, w3) \<Rightarrow>
                       (if (case cached of Inl err \<Rightarrow> False | Inr cachedTrack \<Rightarrow> IsPlaying cachedTrack)
                        then (JSON 200 (TrackBody (projr cached)), w3)
                        else
                          (case GetCurrentlyPlayingTrack E (U_SpotifyAccessToken user) w3 of
                             (Inl err, w4) \<Rightarrow>
                               (if is_panic err then (AbortWithStatus 500, w4)
                                else (JSON 500 (ErrorBody ''Failed to get track from Spotify''), w4))
                           | (Inr track, w4) \<Rightarrow>
                               (if IsPlaying track
                                then (JSON 200 (TrackBody track),
                                      snd (CacheCurrentlyPlaying E (U_ID user) track w4))
                                else (JSON 200 (TrackBody track), w4))))))))"

definition refreshCurrentTrack :: "external \<Rightarrow> string \<Rightarrow> world \<Rightarrow> response \<times> world" where
  "refreshCurrentTrack E userID w =
     (case GetUserByID userID w of
        (Inl err, w1) \<Rightarrow> (JSON 500 (ErrorBody ''Failed to get user''), w1)
      | (Inr user0, w1) \<Rightarrow>
          (if \<not> U_IsSharingEnabled user0
           then (JSON 403 (ErrorBody ''Music sharing is disabled''), w1)
           else
             (case refresh_if_expired E user0 w1 of
                (Inl resp, w2) \<Rightarrow> (resp, w2)
              | (Inr user, w2) \<Rightarrow>
                  (case GetCurrentlyPlayingTrack E (U_SpotifyAccessToken user) w2 of
                     (Inl err, w3) \<Rightarrow>
                       (if is_panic err then (AbortWithStatus 500, w3)
                        else (JSON 500 (ErrorBody ''Failed to get track from Spotify''), w3))
                   | (Inr track, w3) \<Rightarrow>
                       (if IsPlaying track
                        then (let w4 = snd (CacheCurrentlyPlaying E (U_ID user) track w3);
                                  w5 = snd (NotifyTrackChange E (U_ID user) track w4)
                              in (JSON 200 (TrackBody track), w5))
                        else (JSON 200 (TrackBody track), w3))))))"

subsection \<open>GET /api/tracks/history\<close>

text \<open>
  \<open>strconv.Atoi\<close>: an optional sign, then decimal digits only, the value within 64 bits.
\<close>

definition is_digit :: "char \<Rightarrow> bool" where
  "is_digit c \<longleftrightarrow> 48 \<le> (of_char c :: nat) \<and> (of_char c :: nat) \<le> 57"

definition digits_value :: "string \<Rightarrow> nat" where
  "digits_value ds = foldl (\<lambda>a c. 10 * a + (of_char c - 48)) 0 ds"

definition strconv_Atoi :: "string \<Rightarrow> int option" where
  "strconv_Atoi s =
     (let neg = (s \<noteq> [] \<and> hd s = CHR ''-'');
          ds = (if s \<noteq> [] \<and> (hd s = CHR ''-'' \<or> hd s = CHR ''+'') then tl s else s);
          v = (if neg then - int (digits_value ds) else int (digits_value ds))
      in if ds = [] \<or> \<not> list_all is_digit ds then None
         else if v < - (2 ^ 63) \<or> 2 ^ 63 - 1 < v then None
         else Some v)"

text \<open>
  The parts of an incoming request the handlers read: the \<open>user_id\<close> cookie, the
  \<open>limit\<close> query parameter (empty when absent) and the values of \<open>c.Request.Context()\<close>.
\<close>

record request =
  Cookie_user_id :: "string option"
  Query_limit :: string
  Request_Context :: ctx

definition getTrackHistory :: "request \<Rightarrow> string \<Rightarrow> world \<Rightarrow> response \<times> world" where
  "getTrackHistory c userID w =
     (let limit = (if Query_limit c \<noteq> []
                   then (case strconv_Atoi (Query_limit c) of
                           Some parsedLimit \<Rightarrow> parsedLimit
                         | None \<Rightarrow> 10)
                   else 10)
      in case GetTrackHistory (Request_Context c) userID limit w of
           (Inl err, w') \<Rightarrow> (JSON 500 (ErrorBody ''Failed to get track history''), w')
         | (Inr ts, w') \<Rightarrow> (JSON 200 (TracksBody ts), w'))"

text \<open>
  \<open>authMiddleware\<close> answers 401 itself or stores the user's ID in the gin context
  (\<open>c.Set\<close>, which does not touch \<open>c.Request\<close>) and lets the handler run.
\<close>

definition authMiddleware :: "request \<Rightarrow> world \<Rightarrow> (response + string) \<times> world" where
  "authMiddleware c w =
     (case Cookie_user_id c of
        None \<Rightarrow> (Inl (JSON 401 (ErrorBody ''Authentication required'')), w)
      | Some userID \<Rightarrow>
          (case GetUserByID userID w of
             (Inl err, w') \<Rightarrow> (Inl (JSON 401 (ErrorBody ''Invalid authentication'')), w')
           | (Inr user, w') \<Rightarrow> (Inr (U_ID user), w')))"

text \<open>The route as \<open>RegisterTrackHandlers\<close> registers it: the middleware, then the handler.\<close>

definition GET_api_tracks_history :: "request \<Rightarrow> world \<Rightarrow> response \<times> world" where
  "GET_api_tracks_history c w =
     (case authMiddleware c w of
        (Inl resp, w') \<Rightarrow> (resp, w')
      | (Inr userID, w') \<Rightarrow> getTrackHistory c userID w')"

subsection \<open>GET /ws/tracks/:profileURL\<close>

text \<open>
  A live-update session: the owner and the visit it belongs to, the messages written to the
  viewer so far, whether the relay loop of the handler is running (the connection is open
  exactly as long as it is: \<open>conn.Close\<close> and \<open>pubsub.Close\<close> are deferred to the
  handler's return) and whether the renewal goroutine is running.
\<close>

record session =
  S_userID :: string
  S_visitID :: string
  S_sent :: "string list"
  S_relay :: bool
  S_heartbeat :: bool

record ws_request =
  Param_profileURL :: string
  Cookie_visit_id :: "string option"

datatype ws_result =
    Rejected response
  | UpgradeFailed
  | Upgraded session

text \<open>
  Writes to the connection and the upgrade itself consume the fault plan. \<open>WriteJSON\<close>
  encodes with a \<open>json.Encoder\<close>, which ends the text with a newline.
\<close>

definition conn_Write :: "string \<Rightarrow> session \<Rightarrow> world \<Rightarrow> error option \<times> session \<times> world" where
  "conn_Write payload s w =
     (case next_fault w of
        (True, w') \<Rightarrow> (Some TransportError, s, w')
      | (False, w') \<Rightarrow> (None, s\<lparr>S_sent := S_sent s @ [payload]\<rparr>, w'))"

definition conn_WriteJSON ::
  "external \<Rightarrow> SpotifyCurrentlyPlaying \<Rightarrow> session \<Rightarrow> world \<Rightarrow> error option \<times> session \<times> world" where
  "conn_WriteJSON E track s w =
     (case json_Marshal E track of
        Inl err \<Rightarrow> (Some err, s, w)
      | Inr payload \<Rightarrow> conn_Write (payload @ [CHR 0x0A]) s w)"

definition upgrader_Upgrade :: "world \<Rightarrow> error option \<times> world" where
  "upgrader_Upgrade w =
     (case next_fault w of
        (True, w') \<Rightarrow> (Some TransportError, w')
      | (False, w') \<Rightarrow> (None, w'))"

text \<open>
  \<open>trackUpdatesWebSocket\<close> up to the start of its two loops (lines 50 to 116). A failed
  first write returns from the handler: the session is over before it streams.
\<close>

definition trackUpdatesWebSocket :: "external \<Rightarrow> ws_request \<Rightarrow> world \<Rightarrow> ws_result \<times> world" where
  "trackUpdatesWebSocket E c w =
     (case GetUserByProfileURL (Param_profileURL c) w of
        (Inl err, w1) \<Rightarrow> (Rejected (JSON 404 (ErrorBody ''Profile not found'')), w1)
      | (Inr user, w1) \<Rightarrow>
          (if \<not> U_IsActive user \<or> \<not> U_IsSharingEnabled user
           then (Rejected (JSON 403 (ErrorBody ''Profile not available'')), w1)
           else
             (case Cookie_visit_id c of
                None \<Rightarrow> (Rejected (JSON 401 (ErrorBody ''Unauthorized'')), w1)
              | Some visitID \<Rightarrow>
                  (case upgrader_Upgrade w1 of
                     (Some err, w2) \<Rightarrow> (UpgradeFailed, w2)
                   | (None, w2) \<Rightarrow>
                       (let s0 = \<lparr>S_userID = U_ID user, S_visitID = visitID, S_sent = [],
                                   S_relay = True, S_heartbeat = False\<rparr>;
                            w3 = SubscribeToTrackUpdates (U_ID user) w2
                        in case GetCachedCurrentlyPlaying E (U_ID user) w3 of
                             (cached, w4) \<Rightarrow>
                               (if (case cached of Inl err \<Rightarrow> False
                                    | Inr cachedTrack \<Rightarrow> IsPlaying cachedTrack)
                                then (case conn_WriteJSON E (projr cached) s0 w4 of
                                        (Some err, s1, w5) \<Rightarrow> (Upgraded (s1\<lparr>S_relay := False\<rparr>), w5)
                                      | (None, s1, w5) \<Rightarrow> (Upgraded (s1\<lparr>S_heartbeat := True\<rparr>), w5))
                                else (Upgraded (s0\<lparr>S_heartbeat := True\<rparr>), w4)))))))"

text \<open>
  The two loops of lines 98 to 130, one step per event. \<open>Tick\<close>: 60 seconds pass and
  the ticker fires, received by the renewal goroutine if it is still running; a failed
  renewal is logged and the goroutine returns. \<open>Message p\<close>: the subscription delivers \<open>p\<close>, which the
  relay loop forwards; a failed write returns from the handler. \<open>Done\<close>: the request context
  is cancelled, and both loops return. The request context is also cancelled when the handler
  returns, which ends the goroutine with it.
\<close>

datatype event = Tick | Message string | Done

definition session_step :: "event \<Rightarrow> session \<times> world \<Rightarrow> session \<times> world" where
  "session_step ev sw =
     (case sw of (s, w) \<Rightarrow>
        (case ev of
           Tick \<Rightarrow>
             (let w0 = w\<lparr>clock := clock w + 60 * Second\<rparr>
              in if S_heartbeat s then
                   (case RenewVisitorActivity (S_visitID s) w0 of
                      (Some err, w') \<Rightarrow> (s\<lparr>S_heartbeat := False\<rparr>, w')
                    | (None, w') \<Rightarrow> (s, w'))
                 else (s, w0))
         | Message payload \<Rightarrow>
             (if S_relay s then
                (case conn_Write payload s w of
                   (Some err, s', w') \<Rightarrow> (s'\<lparr>S_relay := False, S_heartbeat := False\<rparr>, w')
                 | (None, s', w') \<Rightarrow> (s', w'))
              else (s, w))
         | Done \<Rightarrow> (s\<lparr>S_relay := False, S_heartbeat := False\<rparr>, w)))"

fun session_run :: "event list \<Rightarrow> session \<times> world \<Rightarrow> session \<times> world" where
  "session_run [] sw = sw"
| "session_run (ev # evs) sw = session_run evs (session_step ev sw)"

section \<open>Properties are stated over these observations\<close>

text \<open>The number of the owner's history rows with \<open>is_currently_playing = true\<close>.\<close>

definition playing_count :: "string \<Rightarrow> Track list \<Rightarrow> nat" where
  "playing_count userID ts = length (filter (\<lambda>t. T_UserID t = userID \<and> T_IsCurrentlyPlaying t) ts)"

text \<open>The poll with this access token panics while it reads the reply.\<close>

definition poll_panics :: "external \<Rightarrow> string \<Rightarrow> bool" where
  "poll_panics E accessToken =
     (case CurrentlyPlayingTrack E accessToken of Inl err \<Rightarrow> is_panic err | Inr t \<Rightarrow> False)"

text \<open>A sequence of \<open>SaveTrackToHistory\<close> calls, one after the other.\<close>

fun SaveTrackToHistory_seq :: "Track list \<Rightarrow> world \<Rightarrow> world" where
  "SaveTrackToHistory_seq [] w = w"
| "SaveTrackToHistory_seq (track # rest) w = SaveTrackToHistory_seq rest (snd (SaveTrackToHistory track w))"

text \<open>
  The three pieces of state a refresh can write: the Redis keyspace (which holds the
  now-playing cache), the record of published events and the track history.
\<close>

definition shared_state ::
  "world \<Rightarrow> (string \<rightharpoonup> rvalue \<times> time option) \<times> (string \<times> string) list \<times> Track list" where
  "shared_state w = (redis_keys w, published w, tracks w)"

section \<open>Sample data\<close>

definition alice :: User where
  "alice = \<lparr>U_ID = ''u1'', U_SpotifyID = ''sp-alice'', U_Email = ''alice@example.org'',
            U_DisplayName = ''Alice'', U_ProfileURL = ''alice'',
            U_SpotifyAccessToken = ''stale-token'', U_SpotifyRefreshToken = ''refresh-1'',
            U_TokenExpiresAt = 0, U_IsActive = True, U_IsSharingEnabled = True,
            U_CreatedAt = 0, U_UpdatedAt = 0\<rparr>"

definition alice_profile :: Profile where
  "alice_profile = \<lparr>P_ID = ''p1'', P_UserID = ''u1'', P_Theme = ''default'',
            P_BackgroundColor = ''#121212'', P_TextColor = ''#FFFFFF'', P_CustomMessage = [],
            P_ShowStats = True, P_ShowHistory = True, P_AnimationStyle = ''fade'',
            P_CreatedAt = 0, P_UpdatedAt = 0\<rparr>"

definition song :: SpotifyCurrentlyPlaying where
  "song = \<lparr>IsPlaying = True, TrackID = ''T1'', TrackName = ''So What'', ArtistName = ''Miles Davis'',
           AlbumName = ''Kind of Blue'', AlbumArtURL = ''https://img.example/kob'',
           TrackURL = ''https://open.example/T1'', DurationMs = 200000, ProgressMs = 10000\<rparr>"

definition song2 :: SpotifyCurrentlyPlaying where
  "song2 = \<lparr>IsPlaying = True, TrackID = ''T2'', TrackName = ''Freddie Freeloader'',
            ArtistName = ''Miles Davis'', AlbumName = ''Kind of Blue'',
            AlbumArtURL = ''https://img.example/kob'', TrackURL = ''https://open.example/T2'',
            DurationMs = 586000, ProgressMs = 0\<rparr>"

text \<open>The provider's reply while \<open>song\<close> is playing.\<close>

definition song_reply :: "(string \<times> json) list" where
  "song_reply =
     [(''is_playing'', JBool True), (''progress_ms'', JNumber 10000),
      (''item'', JObject
         [(''id'', JString ''T1''), (''name'', JString ''So What''), (''duration_ms'', JNumber 200000),
          (''external_urls'', JObject [(''spotify'', JString ''https://open.example/T1'')]),
          (''album'', JObject
             [(''name'', JString ''Kind of Blue''),
              (''images'', JArray
                 [JObject [(''url'', JString ''https://img.example/kob-large'')],
                  JObject [(''url'', JString ''https://img.example/kob'')],
                  JObject [(''url'', JString ''https://img.example/kob-small'')]])]),
          (''artists'', JArray [JObject [(''name'', JString ''Miles Davis'')]])])]"

text \<open>What \<open>GetCurrentlyPlayingTrack\<close> returns when the provider answers 204 No Content.\<close>

definition idle :: SpotifyCurrentlyPlaying where
  "idle = \<lparr>IsPlaying = False, TrackID = [], TrackName = [], ArtistName = [], AlbumName = [],
           AlbumArtURL = [], TrackURL = [], DurationMs = 0, ProgressMs = 0\<rparr>"

text \<open>A text layer that knows the three sample snapshots, under short stand-in texts.\<close>

definition sample_encode :: "json \<Rightarrow> error + string" where
  "sample_encode j =
     (if j = to_json song then Inr ''{is_playing:true,track_id:T1}''
      else if j = to_json song2 then Inr ''{is_playing:true,track_id:T2}''
      else if j = to_json idle then Inr ''{is_playing:false}''
      else Inl (New ''json: unsupported value''))"

definition sample_decode :: "string \<Rightarrow> error + json" where
  "sample_decode js =
     (if js = ''{is_playing:true,track_id:T1}'' then Inr (to_json song)
      else if js = ''{is_playing:true,track_id:T2}'' then Inr (to_json song2)
      else if js = ''{is_playing:false}'' then Inr (to_json idle)
      else Inl (New ''json: invalid character''))"

definition fresh_token :: TokenResponse where
  "fresh_token = \<lparr>AccessToken = ''fresh-token'', TokenType = ''Bearer'', Scope = [],
                  ExpiresIn = 3600, RefreshToken = []\<rparr>"

text \<open>Three providers: one playing \<open>song\<close>, one idle, one whose token endpoint is down.\<close>

definition provider_playing :: external where
  "provider_playing = \<lparr>json_encode = sample_encode, json_decode = sample_decode,
       RefreshAccessToken = (\<lambda>r. Inr fresh_token),
       GetCurrentlyPlaying = (\<lambda>a. Inr (Some song_reply))\<rparr>"

definition provider_idle :: external where
  "provider_idle = \<lparr>json_encode = sample_encode, json_decode = sample_decode,
       RefreshAccessToken = (\<lambda>r. Inr fresh_token), GetCurrentlyPlaying = (\<lambda>a. Inr None)\<rparr>"

definition provider_no_refresh :: external where
  "provider_no_refresh = \<lparr>json_encode = sample_encode, json_decode = sample_decode,
       RefreshAccessToken = (\<lambda>r. Inl (New ''non-200 response'')),
       GetCurrentlyPlaying = (\<lambda>a. Inr (Some song_reply))\<rparr>"

text \<open>
  Alice has an account and a profile; her token expired at instant 0. In \<open>world_visit\<close> a
  viewer has loaded her page (visit \<open>V1\<close>) at instant 0.
\<close>

definition world_alice :: world where
  "world_alice = world0\<lparr>users := [alice], profiles := [alice_profile]\<rparr>"

definition world_visit :: world where
  "world_visit = snd (RecordProfileVisit ''V1'' ''u1'' ''203.0.113.7'' ''Mozilla/5.0'' [] None world_alice)"

text \<open>A streaming live-update session of the viewer of visit \<open>V1\<close>.\<close>

definition viewer_session :: session where
  "viewer_session = \<lparr>S_userID = ''u1'', S_visitID = ''V1'', S_sent = [], S_relay = True,
                      S_heartbeat = True\<rparr>"

section \<open>Verification\<close>

lemmas store_defs = next_fault_def live_def redis_Set_def redis_Get_def redis_Delete_def
  redis_Publish_def redis_Subscribe_def redis_AddToSet_def redis_RemoveFromSet_def
  redis_GetSetSize_def db_Get_def db_Exec_def select_recent_def expiry_of_def

lemmas service_defs = GetUserByID_def GetUserByProfileURL_def IsTokenExpired_def UpdateUserToken_def
  GetProfile_def GetRecentTracks_def GetActiveUserCount_def CacheCurrentlyPlaying_def
  GetCachedCurrentlyPlaying_def NotifyTrackChange_def SubscribeToTrackUpdates_def
  json_Marshal_def json_Unmarshal_def to_json_def of_json_def fits_bool_def fits_string_def
  fits_number_def
  GetCurrentlyPlayingTrack_def CurrentlyPlayingTrack_def extract_track_def as_bool_def
  as_string_def as_number_def album_art_url_def first_artist_name_def is_panic_def
  SaveTrackToHistory_def track_of_snapshot_def
  profile_refresh_token_def profile_current_track_def GetProfileResponse_def
  refresh_if_expired_def touch_played_at_def flip_playing_def

lemmas sample_defs = world_visit_def world_alice_def world0_def alice_def alice_profile_def
  song_def song2_def idle_def song_reply_def sample_encode_def sample_decode_def fresh_token_def
  provider_playing_def provider_idle_def provider_no_refresh_def

lemmas duration_defs = Minute_def Second_def T_cache_def T_presence_def

lemmas handler_defs = getCurrentTrack_def refreshCurrentTrack_def getTrackHistory_def
  authMiddleware_def GET_api_tracks_history_def GetTrackHistory_def trackUpdatesWebSocket_def
  upgrader_Upgrade_def conn_Write_def conn_WriteJSON_def session_step_def
  RenewVisitorActivity_def RecordProfileVisit_def viewer_session_def

subsection \<open>The stores: what a command leaves alone, and what it computes when nothing fails\<close>

text \<open>
  Reading commands, and commands that fail, change nothing but the fault plan; in
  particular they leave the three pieces of \<open>shared_state\<close> alone.
\<close>

lemma next_fault_world: "next_fault w = (f, w') \<Longrightarrow> \<exists>fs. w' = w\<lparr>faults := fs\<rparr>"
proof (cases "faults w")
  case Nil
  assume "next_fault w = (f, w')"
  with Nil have "w' = w\<lparr>faults := faults w\<rparr>"
    by (simp add: next_fault_def)
  then show ?thesis ..
next
  case (Cons b fs)
  assume "next_fault w = (f, w')"
  with Cons have "w' = w\<lparr>faults := fs\<rparr>"
    by (simp add: next_fault_def)
  then show ?thesis ..
qed

lemma faults_only_refl: "\<exists>fs. x = x\<lparr>faults := fs\<rparr>"
  by (rule exI [of _ "faults x"]) simp

lemma db_Get_world: "db_Get cond rows w = (r, w') \<Longrightarrow> \<exists>fs. w' = w\<lparr>faults := fs\<rparr>"
  by (auto simp: db_Get_def dest!: next_fault_world split: prod.splits bool.splits option.splits)

lemma GetUserByID_world: "GetUserByID i w = (r, w') \<Longrightarrow> \<exists>fs. w' = w\<lparr>faults := fs\<rparr>"
  by (auto simp: GetUserByID_def dest!: db_Get_world split: prod.splits sum.splits)

lemma GetUserByProfileURL_world:
  "GetUserByProfileURL url w = (r, w') \<Longrightarrow> \<exists>fs. w' = w\<lparr>faults := fs\<rparr>"
  by (auto simp: GetUserByProfileURL_def dest!: db_Get_world split: prod.splits sum.splits)

lemma GetProfile_world: "GetProfile i w = (r, w') \<Longrightarrow> \<exists>fs. w' = w\<lparr>faults := fs\<rparr>"
  by (auto simp: GetProfile_def dest!: db_Get_world split: prod.splits sum.splits)

lemma select_recent_world: "select_recent u l w = (r, w') \<Longrightarrow> \<exists>fs. w' = w\<lparr>faults := fs\<rparr>"
  by (auto simp: select_recent_def dest!: next_fault_world split: prod.splits bool.splits if_splits)

lemma GetRecentTracks_world:
  "GetRecentTracks u l w = (r, w') \<Longrightarrow> \<exists>fs. w' = w\<lparr>faults := fs\<rparr>"
  by (auto simp: GetRecentTracks_def dest!: select_recent_world split: prod.splits sum.splits)

lemma GetActiveUserCount_world:
  "GetActiveUserCount u w = (r, w') \<Longrightarrow> \<exists>fs. w' = w\<lparr>faults := fs\<rparr>"
  by (auto simp: GetActiveUserCount_def redis_GetSetSize_def dest!: next_fault_world
      split: prod.splits sum.splits bool.splits option.splits rvalue.splits)

lemma next_fault_shared: "next_fault w = (f, w') \<Longrightarrow> shared_state w' = shared_state w"
  by (auto simp: next_fault_def shared_state_def split: list.splits)

lemma db_Get_shared: "db_Get cond rows w = (r, w') \<Longrightarrow> shared_state w' = shared_state w"
  by (auto simp: db_Get_def dest!: next_fault_shared split: prod.splits bool.splits option.splits)

lemma GetUserByID_shared: "GetUserByID i w = (r, w') \<Longrightarrow> shared_state w' = shared_state w"
  by (auto simp: GetUserByID_def dest!: db_Get_shared split: prod.splits sum.splits)

lemma GetProfile_shared: "GetProfile i w = (r, w') \<Longrightarrow> shared_state w' = shared_state w"
  by (auto simp: GetProfile_def dest!: db_Get_shared split: prod.splits sum.splits)

lemma UpdateUserToken_shared:
  "UpdateUserToken i a e w = (r, w') \<Longrightarrow> shared_state w' = shared_state w"
  by (auto simp: UpdateUserToken_def db_Exec_def next_fault_def shared_state_def
      split: prod.splits bool.splits option.splits list.splits)

lemma redis_Get_shared: "redis_Get k w = (r, w') \<Longrightarrow> shared_state w' = shared_state w"
  by (auto simp: redis_Get_def dest!: next_fault_shared
      split: prod.splits bool.splits option.splits rvalue.splits)

lemma GetCached_shared:
  "GetCachedCurrentlyPlaying E u w = (r, w') \<Longrightarrow> shared_state w' = shared_state w"
  by (auto simp: GetCachedCurrentlyPlaying_def dest!: redis_Get_shared split: prod.splits sum.splits)

lemma poll_shared:
  "GetCurrentlyPlayingTrack E a w = (r, w') \<Longrightarrow>
     r = CurrentlyPlayingTrack E a \<and> shared_state w' = shared_state w"
  by (auto simp: GetCurrentlyPlayingTrack_def shared_state_def)

lemma select_recent_shared: "select_recent u l w = (r, w') \<Longrightarrow> shared_state w' = shared_state w"
  by (auto simp: select_recent_def dest!: next_fault_shared split: prod.splits bool.splits if_splits)

lemma GetRecentTracks_shared:
  "GetRecentTracks u l w = (r, w') \<Longrightarrow> shared_state w' = shared_state w"
  by (auto simp: GetRecentTracks_def dest!: select_recent_shared split: prod.splits sum.splits)

lemma GetActiveUserCount_shared:
  "GetActiveUserCount u w = (r, w') \<Longrightarrow> shared_state w' = shared_state w"
  by (auto simp: GetActiveUserCount_def redis_GetSetSize_def dest!: next_fault_shared
      split: prod.splits sum.splits bool.splits option.splits rvalue.splits)

lemma refresh_if_expired_shared:
  "refresh_if_expired E user w = (r, w') \<Longrightarrow> shared_state w' = shared_state w"
  by (auto simp: refresh_if_expired_def  split: if_splits sum.splits
      intro: UpdateUserToken_shared [OF surjective_pairing])

lemma profile_refresh_token_shared:
  "profile_refresh_token E user w = (r, w') \<Longrightarrow> shared_state w' = shared_state w"
  by (auto simp: profile_refresh_token_def split: if_splits sum.splits
      intro: UpdateUserToken_shared [OF surjective_pairing])

lemma next_fault_healthy: "faults w = [] \<Longrightarrow> next_fault w = (False, w)"
  by (simp add: next_fault_def)

text \<open>With an empty fault plan the store commands compute their result.\<close>

lemma db_Get_healthy:
  "faults w = [] \<Longrightarrow> db_Get cond rows w =
     (case find cond rows of None \<Rightarrow> (Inl ErrNoRows, w) | Some r \<Rightarrow> (Inr r, w))"
  by (simp add: db_Get_def next_fault_def)

lemma db_Exec_healthy: "faults w = [] \<Longrightarrow> db_Exec statement w = (None, statement w)"
  by (simp add: db_Exec_def next_fault_def)

lemma redis_Get_healthy:
  "faults w = [] \<Longrightarrow> redis_Get key w =
     (case live w key of None \<Rightarrow> (Inl RedisNil, w) | Some (RString s) \<Rightarrow> (Inr s, w)
      | Some (RSet ms) \<Rightarrow> (Inl WrongType, w))"
  by (simp add: redis_Get_def next_fault_def)

lemma redis_Set_healthy:
  "faults w = [] \<Longrightarrow> redis_Set key v expiration w =
     (None, w\<lparr>redis_keys := (redis_keys w)(key \<mapsto>
        (RString v, if expiration = 0 then None else Some (clock w + expiration)))\<rparr>)"
  by (simp add: redis_Set_def next_fault_def)

lemma redis_Publish_healthy:
  "faults w = [] \<Longrightarrow> redis_Publish channel message w =
     (None, w\<lparr>published := published w @ [(channel, message)]\<rparr>)"
  by (simp add: redis_Publish_def next_fault_def)


lemma GetProfile_healthy:
  assumes "faults w = []" and "find (\<lambda>p. P_UserID p = i) (profiles w) = Some profile"
  shows "GetProfile i w = (Inr profile, w)"
  using assms by (simp add: GetProfile_def db_Get_healthy)


lemma GetUserByProfileURL_result:
  "GetUserByProfileURL url w = (Inr user, w') \<Longrightarrow> find (\<lambda>u. U_ProfileURL u = url) (users w) = Some user"
  by (auto simp: GetUserByProfileURL_def db_Get_def split: prod.splits sum.splits bool.splits option.splits)



text \<open>After the current track is settled, the page load only reads.\<close>

lemma GetProfileResponse_after_profile:
  assumes "GetProfile (U_ID user) w = (Inr profile, w1)"
  shows "(isl (fst (GetProfileResponse E user w)) \<longleftrightarrow> isl (fst (profile_current_track E user w1))) \<and>
    (\<exists>fs. snd (GetProfileResponse E user w) = (snd (profile_current_track E user w1))\<lparr>faults := fs\<rparr>)"
  using assms
  apply (simp add: GetProfileResponse_def split: prod.splits sum.splits)
  apply (auto split: if_splits sum.splits prod.splits
      dest!: GetRecentTracks_world GetActiveUserCount_world intro: faults_only_refl)
  done

text \<open>The current track of the page is settled unless the poll panics.\<close>

lemma profile_current_track_returns:
  assumes "\<forall>a. \<not> poll_panics E a"
  shows "\<not> isl (fst (profile_current_track E user w))"
  using assms
  by (auto simp: profile_current_track_def GetCurrentlyPlayingTrack_def poll_panics_def Let_def
      split: prod.splits sum.splits if_splits)

subsection \<open>Reading the provider's reply\<close>

lemma extract_track_song: "extract_track (Some song_reply) = Inr song"
  by (simp add: extract_track_def song_reply_def song_def as_bool_def as_string_def as_number_def
      album_art_url_def first_artist_name_def)

lemma extract_track_no_content: "extract_track None = Inr idle"
  by (simp add: extract_track_def idle_def)

text \<open>A reply whose item has no \<open>external_urls\<close> object makes the poll panic.\<close>

lemma extract_track_panic:
  "extract_track (Some [(''is_playing'', JBool True), (''item'', JObject [(''id'', JString ''T1'')])])
     = Inl (Panic ''interface conversion: interface {} is not map[string]interface {}'')"
  by (simp add: extract_track_def)

subsection \<open>Presence\<close>

lemma GetActiveUserCount_nonneg:
  "fst (GetActiveUserCount userID w) = Inr n \<Longrightarrow> 0 \<le> n"
  by (auto simp: GetActiveUserCount_def redis_GetSetSize_def
      split: prod.splits sum.splits bool.splits option.splits rvalue.splits)

text \<open>Passing time alone never changes the count of a set that has no expiry.\<close>

lemma visitors_set_has_no_expiry:
  "redis_keys w (''visitors:'' @ userID) = Some (RSet ms, None) \<Longrightarrow> faults w = [] \<Longrightarrow>
     fst (GetActiveUserCount userID (advance d w)) = Inr (int (length ms))"
  by (simp add: GetActiveUserCount_def redis_GetSetSize_def next_fault_def live_def advance_def)

text \<open>
  C1 (active-viewer count and expiry). \<open>RecordProfileVisit\<close> gives the visit an expiring key
  \<open>visitor:V1\<close> and adds \<open>V1\<close> to the set \<open>visitors:u1\<close>, which has no expiry;
  \<open>GetActiveUserCount\<close> is the cardinality of that set. For Alice, with one visit begun at
  instant 0 and never renewed or ended: the count is 0 before the visit and 1 after it, and
  once 5 minutes have passed the key \<open>visitor:V1\<close> is gone but the count is still 1.
  The count is never negative, and it does not drop with the expiry.
\<close>

theorem active_count_keeps_expired_visit:
  "fst (GetActiveUserCount ''u1'' world_alice) = Inr 0 \<and>
   fst (GetActiveUserCount ''u1'' world_visit) = Inr 1 \<and>
   fst (redis_Get ''visitor:V1'' (advance 300000 world_visit)) = Inl RedisNil \<and>
   fst (GetActiveUserCount ''u1'' (advance 300000 world_visit)) = Inr 1"
  by (simp add: sample_defs RecordProfileVisit_def GetActiveUserCount_def advance_def
      store_defs duration_defs)

text \<open>
  C7 as stated fails where it says that renewing an expired entry is a no-op: five minutes
  after the visit began its key is absent, and \<open>RenewVisitorActivity\<close> succeeds and the key
  is present again.
\<close>

theorem renew_recreates_expired_entry:
  "live (advance 300000 world_visit) ''visitor:V1'' = None \<and>
   fst (RenewVisitorActivity ''V1'' (advance 300000 world_visit)) = None \<and>
   live (snd (RenewVisitorActivity ''V1'' (advance 300000 world_visit))) ''visitor:V1''
     = Some (RString ''1'')"
  by (simp add: sample_defs RecordProfileVisit_def RenewVisitorActivity_def advance_def
      store_defs duration_defs)

text \<open>
  C7, amended. When the store accepts the command, \<open>RenewVisitorActivity visitID\<close> succeeds
  and sets the key of the visit to expire 5 minutes from now, whatever the key held before:
  an entry that still exists has its expiry reset, an expired or unknown one is created.
  The entry is present at every instant before the 5 minutes are over and absent from then
  on. A second call at the same instant changes nothing more.
\<close>

theorem renew_sets_expiry:
  assumes "faults w = []"
  shows "fst (RenewVisitorActivity visitID w) = None \<and>
    (\<forall>d. int d < T_presence \<longrightarrow>
       live (advance d (snd (RenewVisitorActivity visitID w))) (''visitor:'' @ visitID)
         = Some (RString ''1'')) \<and>
    (\<forall>d. T_presence \<le> int d \<longrightarrow>
       live (advance d (snd (RenewVisitorActivity visitID w))) (''visitor:'' @ visitID) = None) \<and>
    snd (RenewVisitorActivity visitID (snd (RenewVisitorActivity visitID w)))
       = snd (RenewVisitorActivity visitID w)"
  using assms
  by (simp add: RenewVisitorActivity_def redis_Set_def next_fault_def live_def advance_def
      duration_defs)

theorem renew_sets_expiry_witness:
  "live (advance 299999 (snd (RenewVisitorActivity ''V1'' (advance 300000 world_visit))))
      ''visitor:V1'' = Some (RString ''1'') \<and>
   live (advance 300000 (snd (RenewVisitorActivity ''V1'' (advance 300000 world_visit))))
      ''visitor:V1'' = None"
proof -
  have h: "faults (advance 300000 world_visit) = []"
    by (simp add: sample_defs RecordProfileVisit_def advance_def store_defs Let_def)
  show ?thesis
    using renew_sets_expiry [OF h, of "''V1''"] by (simp add: duration_defs)
qed

subsection \<open>Now-playing cache\<close>





subsection \<open>Track history\<close>

lemma filter_touch:
  "length (filter (\<lambda>t. T_UserID t = u \<and> T_IsCurrentlyPlaying t) (touch_played_at i n ts))
     = length (filter (\<lambda>t. T_UserID t = u \<and> T_IsCurrentlyPlaying t) ts)"
  by (induction ts) (simp_all add: touch_played_at_def)

lemma playing_count_touch:
  "playing_count u (touch_played_at i n ts) = playing_count u ts"
  by (simp add: playing_count_def filter_touch)

lemma filter_flip_owner:
  "filter (\<lambda>t. T_UserID t = u \<and> T_IsCurrentlyPlaying t) (flip_playing u ts) = []"
  by (induction ts) (simp_all add: flip_playing_def)

lemma playing_count_flip_owner: "playing_count u (flip_playing u ts) = 0"
  by (simp add: playing_count_def filter_flip_owner)

lemma filter_flip_other:
  "u \<noteq> v \<Longrightarrow>
   length (filter (\<lambda>t. T_UserID t = u \<and> T_IsCurrentlyPlaying t) (flip_playing v ts))
     = length (filter (\<lambda>t. T_UserID t = u \<and> T_IsCurrentlyPlaying t) ts)"
  by (induction ts) (simp_all add: flip_playing_def)

lemma playing_count_flip_other:
  "u \<noteq> v \<Longrightarrow> playing_count u (flip_playing v ts) = playing_count u ts"
  by (simp add: playing_count_def filter_flip_other)

lemma playing_count_snoc:
  "playing_count u (ts @ [t]) =
     playing_count u ts + (if T_UserID t = u \<and> T_IsCurrentlyPlaying t then 1 else 0)"
  by (simp add: playing_count_def)

lemma playing_count_flip_insert:
  "playing_count u ts \<le> 1 \<Longrightarrow> playing_count u (flip_playing (T_UserID track) ts @ [track]) \<le> 1"
  by (cases "u = T_UserID track")
     (simp_all add: playing_count_snoc playing_count_flip_owner playing_count_flip_other)

lemma playing_count_flip_le:
  "playing_count u ts \<le> 1 \<Longrightarrow> playing_count u (flip_playing v ts) \<le> 1"
  by (cases "u = v") (simp_all add: playing_count_flip_owner playing_count_flip_other)

text \<open>The table after one call is one of four lists, whichever statements failed.\<close>

lemma SaveTrackToHistory_tracks:
  "tracks (snd (SaveTrackToHistory track w)) = tracks w \<or>
   (\<exists>i. tracks (snd (SaveTrackToHistory track w)) = touch_played_at i (clock w) (tracks w)) \<or>
   tracks (snd (SaveTrackToHistory track w)) = flip_playing (T_UserID track) (tracks w) \<or>
   tracks (snd (SaveTrackToHistory track w)) = flip_playing (T_UserID track) (tracks w) @ [track]"
  by (auto simp: SaveTrackToHistory_def db_Get_def db_Exec_def next_fault_def
      split: list.splits option.splits bool.splits)

lemma SaveTrackToHistory_at_most_one:
  assumes "playing_count u (tracks w) \<le> 1"
  shows "playing_count u (tracks (snd (SaveTrackToHistory track w))) \<le> 1"
proof -
  have flip: "playing_count u (flip_playing (T_UserID track) (tracks w)) \<le> 1"
    using assms by (rule playing_count_flip_le)
  have ins: "playing_count u (flip_playing (T_UserID track) (tracks w) @ [track]) \<le> 1"
    using assms by (rule playing_count_flip_insert)
  have touch: "playing_count u (touch_played_at i (clock w) (tracks w)) \<le> 1" for i
    using assms by (simp only: playing_count_touch)
  from SaveTrackToHistory_tracks [of track w] show ?thesis
    using assms flip ins touch by (elim disjE exE) (simp_all only:)
qed

text \<open>
  C2 (at most one playing record). \<open>SaveTrackToHistory\<close> is the only writer of the
  table, which starts empty. If an owner has at most one record with
  \<open>is_currently_playing = true\<close>, then so it is after any sequence of calls, for any
  owners and tracks, and whichever statements of the calls the store rejects.
\<close>

theorem at_most_one_playing:
  assumes "playing_count userID (tracks w) \<le> 1"
  shows "playing_count userID (tracks (SaveTrackToHistory_seq calls w)) \<le> 1"
  using assms
proof (induction calls arbitrary: w)
  case Nil
  then show ?case by simp
next
  case (Cons track rest)
  have "playing_count userID (tracks (snd (SaveTrackToHistory track w))) \<le> 1"
    using Cons.prems by (rule SaveTrackToHistory_at_most_one)
  then show ?case
    using Cons.IH by simp
qed

theorem at_most_one_playing_witness:
  "playing_count ''u1'' (tracks world_alice) \<le> 1 \<and>
   playing_count ''u1'' (tracks (SaveTrackToHistory_seq
      [track_of_snapshot ''u1'' song 0, track_of_snapshot ''u1'' song 0,
       track_of_snapshot ''u1'' song2 0] world_alice)) \<le> 1"
proof -
  have h: "playing_count ''u1'' (tracks world_alice) \<le> 1"
    by (simp add: world_alice_def world0_def playing_count_def)
  show ?thesis
    using h at_most_one_playing [OF h] by (intro conjI)
qed

text \<open>
  The scenario of three polls: \<open>T1\<close>, \<open>T1\<close> again, then \<open>T2\<close>. The second call
  touches the row of the first, the third flips it and inserts the row of \<open>T2\<close>.
\<close>

lemma history_of_three_polls:
  "map (\<lambda>t. (T_SpotifyTrackID t, T_IsCurrentlyPlaying t))
     (tracks (SaveTrackToHistory_seq
        [track_of_snapshot ''u1'' song 0, track_of_snapshot ''u1'' song 0,
         track_of_snapshot ''u1'' song2 0] world_alice))
   = [(''T1'', False), (''T2'', True)]"
  by (simp add: world_alice_def world0_def song_def song2_def track_of_snapshot_def
      SaveTrackToHistory_def db_Get_def db_Exec_def next_fault_def
      touch_played_at_def flip_playing_def)



subsection \<open>Refresh paths: a failed token refresh\<close>

lemma refresh_failure_in_handler:
  assumes "IsTokenExpired user w"
    and "RefreshAccessToken E (U_SpotifyRefreshToken user) = Inl err"
  shows "refresh_if_expired E user w =
           (Inl (JSON 500 (ErrorBody ''Failed to refresh Spotify access'')), w)"
  using assms by (simp add: refresh_if_expired_def)

lemma getCurrentTrack_refresh_fails:
  assumes "fst (GetUserByID userID w) = Inr user" and "U_IsSharingEnabled user"
    and "IsTokenExpired user w"
    and "RefreshAccessToken E (U_SpotifyRefreshToken user) = Inl err"
  shows "fst (getCurrentTrack E userID w) = JSON 500 (ErrorBody ''Failed to refresh Spotify access'')
       \<and> polled (snd (getCurrentTrack E userID w)) = polled w"
proof -
  obtain w1 where g: "GetUserByID userID w = (Inr user, w1)"
    using assms(1) by (cases "GetUserByID userID w") simp
  then obtain fs where w1: "w1 = w\<lparr>faults := fs\<rparr>"
    using GetUserByID_world by blast
  have "IsTokenExpired user w1"
    using assms(3) by (simp add: w1 IsTokenExpired_def)
  then have "refresh_if_expired E user w1 =
      (Inl (JSON 500 (ErrorBody ''Failed to refresh Spotify access'')), w1)"
    using assms(4) by (rule refresh_failure_in_handler)
  then show ?thesis
    using g assms(2) by (simp add: getCurrentTrack_def w1)
qed

lemma refreshCurrentTrack_refresh_fails:
  assumes "fst (GetUserByID userID w) = Inr user" and "U_IsSharingEnabled user"
    and "IsTokenExpired user w"
    and "RefreshAccessToken E (U_SpotifyRefreshToken user) = Inl err"
  shows "fst (refreshCurrentTrack E userID w) = JSON 500 (ErrorBody ''Failed to refresh Spotify access'')
       \<and> polled (snd (refreshCurrentTrack E userID w)) = polled w"
proof -
  obtain w1 where g: "GetUserByID userID w = (Inr user, w1)"
    using assms(1) by (cases "GetUserByID userID w") simp
  then obtain fs where w1: "w1 = w\<lparr>faults := fs\<rparr>"
    using GetUserByID_world by blast
  have "IsTokenExpired user w1"
    using assms(3) by (simp add: w1 IsTokenExpired_def)
  then have "refresh_if_expired E user w1 =
      (Inl (JSON 500 (ErrorBody ''Failed to refresh Spotify access'')), w1)"
    using assms(4) by (rule refresh_failure_in_handler)
  then show ?thesis
    using g assms(2) by (simp add: refreshCurrentTrack_def w1)
qed

lemma profile_current_track_refresh_fails:
  assumes "faults w = []"
    and "live w (''track:current:'' @ U_ID user) = None"
    and "U_IsSharingEnabled user" and "IsTokenExpired user w"
    and "RefreshAccessToken E (U_SpotifyRefreshToken user) = Inl err"
  shows "polled (snd (profile_current_track E user w)) = polled w @ [U_SpotifyAccessToken user]"
    and "isl (fst (profile_current_track E user w)) \<longleftrightarrow> poll_panics E (U_SpotifyAccessToken user)"
  using assms
   apply (simp add: profile_current_track_def GetCachedCurrentlyPlaying_def redis_Get_healthy
      profile_refresh_token_def GetCurrentlyPlayingTrack_def)
   apply (auto split: sum.splits simp: Let_def CacheCurrentlyPlaying_def NotifyTrackChange_def
      SaveTrackToHistory_def db_Get_healthy db_Exec_healthy redis_Set_healthy redis_Publish_healthy
      split: option.splits)[1]
  using assms
  apply (simp add: profile_current_track_def GetCachedCurrentlyPlaying_def redis_Get_healthy
      profile_refresh_token_def GetCurrentlyPlayingTrack_def poll_panics_def)
  apply (auto split: sum.splits simp: Let_def)
  done

lemma GetProfileResponse_refresh_fails:
  assumes "faults w = []"
    and "find (\<lambda>p. P_UserID p = U_ID user) (profiles w) = Some profile"
    and "live w (''track:current:'' @ U_ID user) = None"
    and "U_IsSharingEnabled user" and "IsTokenExpired user w"
    and "RefreshAccessToken E (U_SpotifyRefreshToken user) = Inl err"
  shows "(isl (fst (GetProfileResponse E user w)) \<longleftrightarrow> poll_panics E (U_SpotifyAccessToken user)) \<and>
         polled (snd (GetProfileResponse E user w)) = polled w @ [U_SpotifyAccessToken user]"
proof -
  have p: "GetProfile (U_ID user) w = (Inr profile, w)"
    using assms(1,2) by (rule GetProfile_healthy)
  have t: "polled (snd (profile_current_track E user w)) = polled w @ [U_SpotifyAccessToken user]"
    using assms(1,3,4,5,6) by (rule profile_current_track_refresh_fails(1))
  have i: "isl (fst (profile_current_track E user w)) \<longleftrightarrow> poll_panics E (U_SpotifyAccessToken user)"
    using assms(1,3,4,5,6) by (rule profile_current_track_refresh_fails(2))
  from GetProfileResponse_after_profile [OF p, of E] t i show ?thesis
    by auto
qed

text \<open>
  C3 as stated fails on the page-load path: Alice's token has expired and the token endpoint
  is down, yet \<open>GetProfileResponse\<close> returns a response and the provider has been polled
  with the stale token.
\<close>

theorem page_load_polls_with_stale_token:
  "IsTokenExpired alice world_alice \<and>
   isl (RefreshAccessToken provider_no_refresh (U_SpotifyRefreshToken alice)) \<and>
   \<not> isl (fst (GetProfileResponse provider_no_refresh alice world_alice)) \<and>
   polled (snd (GetProfileResponse provider_no_refresh alice world_alice)) = [''stale-token'']"
  by (simp add: sample_defs service_defs store_defs Minute_def Second_def Let_def)

text \<open>
  C3, amended. Let the owner share, let the token be expired or within 5 minutes of expiring,
  and let the refresh fail. On \<open>getCurrentTrack\<close> and \<open>refreshCurrentTrack\<close>, once the
  user is loaded, the request ends with status 500 and the message
  \<open>Failed to refresh Spotify access\<close>, and the provider is not polled.
  \<open>GetProfileResponse\<close> does not abort: with a healthy store, a profile and nothing
  cached, it has polled the provider once, with the access token the user record held, and
  it returns a response (unless that poll panics on a malformed reply).
\<close>

theorem refresh_failure_by_entry_point:
  assumes "IsTokenExpired user w"
    and "RefreshAccessToken E (U_SpotifyRefreshToken user) = Inl err"
    and "U_IsSharingEnabled user"
  shows "(fst (GetUserByID userID w) = Inr user \<longrightarrow>
            fst (getCurrentTrack E userID w) = JSON 500 (ErrorBody ''Failed to refresh Spotify access'')
          \<and> polled (snd (getCurrentTrack E userID w)) = polled w
          \<and> fst (refreshCurrentTrack E userID w) = JSON 500 (ErrorBody ''Failed to refresh Spotify access'')
          \<and> polled (snd (refreshCurrentTrack E userID w)) = polled w)
       \<and> (faults w = [] \<and> find (\<lambda>p. P_UserID p = U_ID user) (profiles w) \<noteq> None
            \<and> live w (''track:current:'' @ U_ID user) = None \<longrightarrow>
            (isl (fst (GetProfileResponse E user w)) \<longleftrightarrow> poll_panics E (U_SpotifyAccessToken user))
          \<and> polled (snd (GetProfileResponse E user w)) = polled w @ [U_SpotifyAccessToken user])"
  using assms getCurrentTrack_refresh_fails [of userID w user E err]
    refreshCurrentTrack_refresh_fails [of userID w user E err]
    GetProfileResponse_refresh_fails [of w user _ E err]
  by auto

theorem refresh_failure_by_entry_point_witness:
  "fst (getCurrentTrack provider_no_refresh ''u1'' world_alice)
     = JSON 500 (ErrorBody ''Failed to refresh Spotify access'') \<and>
   polled (snd (getCurrentTrack provider_no_refresh ''u1'' world_alice)) = [] \<and>
   fst (refreshCurrentTrack provider_no_refresh ''u1'' world_alice)
     = JSON 500 (ErrorBody ''Failed to refresh Spotify access'') \<and>
   polled (snd (refreshCurrentTrack provider_no_refresh ''u1'' world_alice)) = [] \<and>
   \<not> isl (fst (GetProfileResponse provider_no_refresh alice world_alice)) \<and>
   polled (snd (GetProfileResponse provider_no_refresh alice world_alice)) = [''stale-token'']"
proof -
  have e: "IsTokenExpired alice world_alice"
    by (simp add: sample_defs IsTokenExpired_def Minute_def Second_def)
  have r: "RefreshAccessToken provider_no_refresh (U_SpotifyRefreshToken alice) = Inl (New ''non-200 response'')"
    by (simp add: provider_no_refresh_def)
  have s: "U_IsSharingEnabled alice"
    by (simp add: alice_def)
  have g: "fst (GetUserByID ''u1'' world_alice) = Inr alice"
    by (simp add: sample_defs GetUserByID_def db_Get_def next_fault_def)
  have h: "faults world_alice = [] \<and> find (\<lambda>p. P_UserID p = U_ID alice) (profiles world_alice) \<noteq> None
            \<and> live world_alice (''track:current:'' @ U_ID alice) = None"
    by (simp add: sample_defs live_def)
  have a: "U_SpotifyAccessToken alice = ''stale-token''" and p: "polled world_alice = []"
    by (simp_all add: sample_defs)
  have n: "\<not> poll_panics provider_no_refresh ''stale-token''"
    by (simp add: poll_panics_def sample_defs service_defs)
  show ?thesis
    using refresh_failure_by_entry_point [OF e r s, of "''u1''"] g h a p n by simp
qed

subsection \<open>Refresh paths: an idle provider\<close>

lemma getCurrentTrack_idle:
  assumes "\<forall>a t. CurrentlyPlayingTrack E a = Inr t \<longrightarrow> \<not> IsPlaying t"
  shows "shared_state (snd (getCurrentTrack E userID w)) = shared_state w"
  using assms
  by (auto simp: getCurrentTrack_def split: prod.splits sum.splits
      dest!: GetUserByID_shared refresh_if_expired_shared GetCached_shared poll_shared)

lemma refreshCurrentTrack_idle:
  assumes "\<forall>a t. CurrentlyPlayingTrack E a = Inr t \<longrightarrow> \<not> IsPlaying t"
  shows "shared_state (snd (refreshCurrentTrack E userID w)) = shared_state w"
  using assms
  by (auto simp: refreshCurrentTrack_def split: prod.splits sum.splits
      dest!: GetUserByID_shared refresh_if_expired_shared poll_shared)

lemma profile_current_track_idle:
  assumes "\<forall>a t. CurrentlyPlayingTrack E a = Inr t \<longrightarrow> \<not> IsPlaying t"
  shows "shared_state (snd (profile_current_track E user w)) = shared_state w"
  using assms
  by (auto simp: profile_current_track_def split: prod.splits sum.splits
      dest!: profile_refresh_token_shared GetCached_shared poll_shared)

lemma GetProfileResponse_idle:
  assumes "\<forall>a t. CurrentlyPlayingTrack E a = Inr t \<longrightarrow> \<not> IsPlaying t"
  shows "shared_state (snd (GetProfileResponse E user w)) = shared_state w"
proof -
  have step: "shared_state w2 = shared_state w1"
    if "profile_current_track E user w1 = (r, w2)" for r w1 w2
    using profile_current_track_idle [OF assms, of user w1] that by simp
  show ?thesis
    by (auto simp: GetProfileResponse_def split: prod.splits sum.splits if_splits
        dest!: GetProfile_shared GetRecentTracks_shared GetActiveUserCount_shared step)
qed

text \<open>
  C5 (an idle poll changes nothing). Let the provider report no snapshot with
  \<open>is_playing = true\<close>, whichever token it is polled with. Then on each of the three
  refresh paths the cache (the whole Redis keyspace), the record of published events and
  the track history are after the operation what they were before it, whatever the stores
  do.
\<close>

theorem idle_poll_changes_nothing:
  assumes "\<forall>a t. CurrentlyPlayingTrack E a = Inr t \<longrightarrow> \<not> IsPlaying t"
  shows "shared_state (snd (getCurrentTrack E userID w)) = shared_state w \<and>
         shared_state (snd (refreshCurrentTrack E userID w)) = shared_state w \<and>
         shared_state (snd (GetProfileResponse E user w)) = shared_state w"
  using assms getCurrentTrack_idle refreshCurrentTrack_idle GetProfileResponse_idle
  by blast

theorem idle_poll_changes_nothing_witness:
  "fst (getCurrentTrack provider_idle ''u1'' world_alice) = JSON 200 (TrackBody idle) \<and>
   polled (snd (getCurrentTrack provider_idle ''u1'' world_alice)) = [''fresh-token''] \<and>
   shared_state (snd (getCurrentTrack provider_idle ''u1'' world_alice)) = shared_state world_alice \<and>
   shared_state (snd (refreshCurrentTrack provider_idle ''u1'' world_alice)) = shared_state world_alice \<and>
   shared_state (snd (GetProfileResponse provider_idle alice world_alice)) = shared_state world_alice"
proof -
  have h: "\<forall>a t. CurrentlyPlayingTrack provider_idle a = Inr t \<longrightarrow> \<not> IsPlaying t"
    by (auto simp: provider_idle_def CurrentlyPlayingTrack_def extract_track_def)
  have ev: "fst (getCurrentTrack provider_idle ''u1'' world_alice) = JSON 200 (TrackBody idle) \<and>
      polled (snd (getCurrentTrack provider_idle ''u1'' world_alice)) = [''fresh-token'']"
    by (simp add: getCurrentTrack_def sample_defs service_defs store_defs duration_defs)
  show ?thesis
    using idle_poll_changes_nothing [OF h, of "''u1''" world_alice alice] ev by simp
qed

subsection \<open>Refresh paths: a playing provider\<close>










subsection \<open>Live-update sessions\<close>

text \<open>
  C9 as stated fails for a visit identifier that no page load ever issued: no visit is
  recorded for Alice and Redis is empty, yet a request with the cookie \<open>visit_id=forged\<close>
  is upgraded, subscribed to her channel and streaming.
\<close>

theorem forged_visit_cookie_is_accepted:
  "profile_visits world_alice = [] \<and> redis_keys world_alice = Map.empty \<and>
   fst (trackUpdatesWebSocket provider_playing
          \<lparr>Param_profileURL = ''alice'', Cookie_visit_id = Some ''forged''\<rparr> world_alice)
     = Upgraded \<lparr>S_userID = ''u1'', S_visitID = ''forged'', S_sent = [], S_relay = True,
                  S_heartbeat = True\<rparr> \<and>
   subscribed (snd (trackUpdatesWebSocket provider_playing
          \<lparr>Param_profileURL = ''alice'', Cookie_visit_id = Some ''forged''\<rparr> world_alice))
     = [''track:updates:u1'']"
  by (simp add: handler_defs sample_defs service_defs store_defs)

lemma trackUpdatesWebSocket_rejects:
  assumes "find (\<lambda>u. U_ProfileURL u = Param_profileURL c) (users w) = None
     \<or> (\<exists>user. find (\<lambda>u. U_ProfileURL u = Param_profileURL c) (users w) = Some user
           \<and> (\<not> U_IsActive user \<or> \<not> U_IsSharingEnabled user))
     \<or> Cookie_visit_id c = None"
  shows "fst (trackUpdatesWebSocket E c w) \<in>
           {Rejected (JSON 404 (ErrorBody ''Profile not found'')),
            Rejected (JSON 403 (ErrorBody ''Profile not available'')),
            Rejected (JSON 401 (ErrorBody ''Unauthorized''))}
       \<and> snd (trackUpdatesWebSocket E c w) = snd (GetUserByProfileURL (Param_profileURL c) w)
       \<and> subscribed (snd (trackUpdatesWebSocket E c w)) = subscribed w
       \<and> shared_state (snd (trackUpdatesWebSocket E c w)) = shared_state w"
proof -
  obtain r w1 where g: "GetUserByProfileURL (Param_profileURL c) w = (r, w1)"
    by (cases "GetUserByProfileURL (Param_profileURL c) w")
  then obtain fs where w1: "w1 = w\<lparr>faults := fs\<rparr>"
    using GetUserByProfileURL_world by blast
  have "fst (trackUpdatesWebSocket E c w) \<in>
           {Rejected (JSON 404 (ErrorBody ''Profile not found'')),
            Rejected (JSON 403 (ErrorBody ''Profile not available'')),
            Rejected (JSON 401 (ErrorBody ''Unauthorized''))}
       \<and> snd (trackUpdatesWebSocket E c w) = w1"
  proof (cases r)
    case (Inl err)
    with g show ?thesis by (simp add: trackUpdatesWebSocket_def)
  next
    case (Inr user)
    with g have "find (\<lambda>u. U_ProfileURL u = Param_profileURL c) (users w) = Some user"
      by (simp add: GetUserByProfileURL_result)
    with assms have "\<not> U_IsActive user \<or> \<not> U_IsSharingEnabled user \<or> Cookie_visit_id c = None"
      by auto
    with g Inr show ?thesis
      by (auto simp: trackUpdatesWebSocket_def)
  qed
  then show ?thesis
    using g by (simp add: w1 shared_state_def)
qed

lemma trackUpdatesWebSocket_any_cookie:
  assumes "fst (GetUserByProfileURL (Param_profileURL c) w) = Inr user"
    and "U_IsActive user" and "U_IsSharingEnabled user" and "Cookie_visit_id c \<noteq> None"
  shows "fst (trackUpdatesWebSocket E c w) \<noteq> Rejected resp"
proof -
  obtain w1 where g: "GetUserByProfileURL (Param_profileURL c) w = (Inr user, w1)"
    using assms(1) by (cases "GetUserByProfileURL (Param_profileURL c) w") simp
  obtain visitID where v: "Cookie_visit_id c = Some visitID"
    using assms(4) by blast
  show ?thesis
    using g v assms(2,3)
    by (auto simp: trackUpdatesWebSocket_def Let_def
        split: prod.splits option.splits sum.splits if_splits)
qed

text \<open>
  C9, amended. If the target owner does not exist, or is not active, or does not share, or the
  request carries no \<open>visit_id\<close> cookie, the request is answered with an error (404,
  403 or 401) and the handler returns before the upgrade: apart from the fault plan consumed
  by the owner lookup the world is untouched, so no subscription exists and nothing is
  delivered. The value of the cookie is not looked at: when the owner is loaded, active and
  sharing, a request with any \<open>visit_id\<close> cookie is not rejected.
\<close>

theorem live_update_rejected_before_upgrade:
  "(find (\<lambda>u. U_ProfileURL u = Param_profileURL c) (users w) = None
      \<or> (\<exists>user. find (\<lambda>u. U_ProfileURL u = Param_profileURL c) (users w) = Some user
            \<and> (\<not> U_IsActive user \<or> \<not> U_IsSharingEnabled user))
      \<or> Cookie_visit_id c = None \<longrightarrow>
      fst (trackUpdatesWebSocket E c w) \<in>
           {Rejected (JSON 404 (ErrorBody ''Profile not found'')),
            Rejected (JSON 403 (ErrorBody ''Profile not available'')),
            Rejected (JSON 401 (ErrorBody ''Unauthorized''))}
       \<and> snd (trackUpdatesWebSocket E c w) = snd (GetUserByProfileURL (Param_profileURL c) w)
       \<and> subscribed (snd (trackUpdatesWebSocket E c w)) = subscribed w
       \<and> shared_state (snd (trackUpdatesWebSocket E c w)) = shared_state w)
   \<and> (\<forall>user. fst (GetUserByProfileURL (Param_profileURL c) w) = Inr user
          \<and> U_IsActive user \<and> U_IsSharingEnabled user \<and> Cookie_visit_id c \<noteq> None \<longrightarrow>
          (\<forall>resp. fst (trackUpdatesWebSocket E c w) \<noteq> Rejected resp))"
  using trackUpdatesWebSocket_rejects [of c w E] trackUpdatesWebSocket_any_cookie [of c w _ E]
  by blast

theorem live_update_rejected_before_upgrade_witness:
  "fst (trackUpdatesWebSocket provider_playing
          \<lparr>Param_profileURL = ''alice'', Cookie_visit_id = None\<rparr> world_alice)
     = Rejected (JSON 401 (ErrorBody ''Unauthorized'')) \<and>
   subscribed (snd (trackUpdatesWebSocket provider_playing
          \<lparr>Param_profileURL = ''alice'', Cookie_visit_id = None\<rparr> world_alice)) = [] \<and>
   fst (trackUpdatesWebSocket provider_playing
          \<lparr>Param_profileURL = ''alice'', Cookie_visit_id = Some ''forged''\<rparr> world_alice)
     \<noteq> Rejected (JSON 401 (ErrorBody ''Unauthorized''))"
proof -
  have a: "Cookie_visit_id \<lparr>Param_profileURL = ''alice'', Cookie_visit_id = None\<rparr> = None"
    by simp
  have ea: "fst (trackUpdatesWebSocket provider_playing
          \<lparr>Param_profileURL = ''alice'', Cookie_visit_id = None\<rparr> world_alice)
      \<notin> {Rejected (JSON 404 (ErrorBody ''Profile not found'')),
            Rejected (JSON 403 (ErrorBody ''Profile not available''))}"
    by (simp add: handler_defs sample_defs service_defs store_defs)
  have s: "subscribed world_alice = []"
    by (simp add: sample_defs)
  have b: "fst (GetUserByProfileURL
             (Param_profileURL \<lparr>Param_profileURL = ''alice'', Cookie_visit_id = Some ''forged''\<rparr>)
             world_alice) = Inr alice
      \<and> U_IsActive alice \<and> U_IsSharingEnabled alice
      \<and> Cookie_visit_id \<lparr>Param_profileURL = ''alice'', Cookie_visit_id = Some ''forged''\<rparr> \<noteq> None"
    by (simp add: sample_defs service_defs store_defs)
  show ?thesis
    using live_update_rejected_before_upgrade
        [of "\<lparr>Param_profileURL = ''alice'', Cookie_visit_id = None\<rparr>" world_alice provider_playing]
      live_update_rejected_before_upgrade
        [of "\<lparr>Param_profileURL = ''alice'', Cookie_visit_id = Some ''forged''\<rparr>" world_alice
          provider_playing] a ea s b
    by auto
qed

lemma ticks_without_heartbeat:
  "\<not> S_heartbeat s \<Longrightarrow>
   session_run (replicate n Tick) (s, w) = (s, w\<lparr>clock := clock w + int n * (60 * Second)\<rparr>)"
proof (induction n arbitrary: w)
  case 0
  then show ?case by simp
next
  case (Suc n)
  then show ?case
    by (simp add: session_step_def Let_def algebra_simps)
qed

text \<open>The sample session is the one the handler opens for the viewer of visit \<open>V1\<close>.\<close>

lemma viewer_session_opens:
  "trackUpdatesWebSocket provider_playing
      \<lparr>Param_profileURL = ''alice'', Cookie_visit_id = Some ''V1''\<rparr> world_visit
    = (Upgraded viewer_session, world_visit\<lparr>subscribed := [''track:updates:u1'']\<rparr>)"
  by (simp add: handler_defs sample_defs service_defs store_defs Let_def)

text \<open>
  C8 as stated fails where it says that the heartbeat goes on after a failed renewal. The
  first renewal of the session fails; the store is healthy from then on. After five ticks
  (5 minutes) the connection is still open, but the renewal goroutine is gone and the
  presence key of the visit has expired. With no failure the five renewals keep it alive.
\<close>

theorem heartbeat_stops_after_failed_renewal:
  "S_relay (fst (session_run [Tick, Tick, Tick, Tick, Tick]
                   (viewer_session, world_visit\<lparr>faults := [True]\<rparr>))) \<and>
   \<not> S_heartbeat (fst (session_run [Tick, Tick, Tick, Tick, Tick]
                   (viewer_session, world_visit\<lparr>faults := [True]\<rparr>))) \<and>
   live (snd (session_run [Tick, Tick, Tick, Tick, Tick]
                   (viewer_session, world_visit\<lparr>faults := [True]\<rparr>))) ''visitor:V1'' = None \<and>
   live (snd (session_run [Tick, Tick, Tick, Tick, Tick]
                   (viewer_session, world_visit))) ''visitor:V1'' = Some (RString ''1'')"
  by (simp add: handler_defs sample_defs store_defs duration_defs Let_def)

text \<open>
  C8, amended. In a streaming session, a renewal that fails at a tick does not close the
  connection: the relay loop keeps running, what was sent is unchanged, and the next message
  of the subscription is still forwarded. The renewal goroutine however returns: on every
  later tick only time passes, no renewal is attempted and the store is not touched.
\<close>

theorem failed_renewal_keeps_connection:
  assumes "S_relay s" and "S_heartbeat s"
    and "fst (RenewVisitorActivity (S_visitID s) (w\<lparr>clock := clock w + 60 * Second\<rparr>)) \<noteq> None"
  shows "S_relay (fst (session_step Tick (s, w))) \<and>
         S_sent (fst (session_step Tick (s, w))) = S_sent s \<and>
         \<not> S_heartbeat (fst (session_step Tick (s, w))) \<and>
         redis_keys (snd (session_step Tick (s, w))) = redis_keys w \<and>
         (\<forall>n. session_run (replicate n Tick) (session_step Tick (s, w)) =
               (fst (session_step Tick (s, w)),
                (snd (session_step Tick (s, w)))
                   \<lparr>clock := clock (snd (session_step Tick (s, w))) + int n * (60 * Second)\<rparr>)) \<and>
         (\<forall>p. faults (snd (session_step Tick (s, w))) = [] \<longrightarrow>
               S_sent (fst (session_step (Message p) (session_step Tick (s, w)))) = S_sent s @ [p])"
proof -
  obtain err w' where r: "RenewVisitorActivity (S_visitID s) (w\<lparr>clock := clock w + 60 * Second\<rparr>)
      = (Some err, w')"
    using assms(3) by (cases "RenewVisitorActivity (S_visitID s) (w\<lparr>clock := clock w + 60 * Second\<rparr>)") auto
  then have k: "redis_keys w' = redis_keys w"
    by (auto simp: RenewVisitorActivity_def redis_Set_def next_fault_def
        split: list.splits bool.splits)
  have step: "session_step Tick (s, w) = (s\<lparr>S_heartbeat := False\<rparr>, w')"
    using assms(2) r by (simp add: session_step_def Let_def)
  have later: "session_run (replicate n Tick) (s\<lparr>S_heartbeat := False\<rparr>, w') =
      (s\<lparr>S_heartbeat := False\<rparr>, w'\<lparr>clock := clock w' + int n * (60 * Second)\<rparr>)" for n
    by (rule ticks_without_heartbeat) simp
  have relay: "S_sent (fst (session_step (Message p) (s\<lparr>S_heartbeat := False\<rparr>, w'))) = S_sent s @ [p]"
    if "faults w' = []" for p
    using that assms(1) by (simp add: session_step_def conn_Write_def next_fault_def)
  show ?thesis
    unfolding step using assms(1) k later relay by simp
qed

theorem failed_renewal_keeps_connection_witness:
  "S_relay (fst (session_step Tick (viewer_session, world_visit\<lparr>faults := [True]\<rparr>))) \<and>
   \<not> S_heartbeat (fst (session_step Tick (viewer_session, world_visit\<lparr>faults := [True]\<rparr>))) \<and>
   S_sent (fst (session_step (Message ''{is_playing:true,track_id:T2}'')
                  (session_step Tick (viewer_session, world_visit\<lparr>faults := [True]\<rparr>))))
     = [''{is_playing:true,track_id:T2}'']"
proof -
  have a: "S_relay viewer_session" and b: "S_heartbeat viewer_session"
    by (simp_all add: viewer_session_def)
  have c: "fst (RenewVisitorActivity (S_visitID viewer_session)
      (world_visit\<lparr>faults := [True], clock := clock (world_visit\<lparr>faults := [True]\<rparr>) + 60 * Second\<rparr>)) \<noteq> None"
    by (simp add: RenewVisitorActivity_def redis_Set_def next_fault_def)
  have d: "faults (snd (session_step Tick (viewer_session, world_visit\<lparr>faults := [True]\<rparr>))) = []"
    by (simp add: handler_defs store_defs Let_def)
  have e: "S_sent viewer_session = []"
    by (simp add: viewer_session_def)
  show ?thesis
    using failed_renewal_keeps_connection [OF a b c] d e by simp
qed

subsection \<open>Track history endpoint\<close>

text \<open>
  C10 (track history is never served). \<open>GetTrackHistory\<close> looks for a \<open>*sqlx.DB\<close> under
  the key \<open>"db"\<close> of the context it is given, and the handler passes the context of the
  request as it came: neither the handler nor the middleware stores anything in it. So for
  a request whose context carries no such value, \<open>GetTrackHistory\<close> fails with
  \<open>database connection not found in context\<close> without touching the store, the handler
  answers 500, and the route answers 401 (from the middleware) or that 500, never a list of
  tracks.
\<close>

theorem track_history_never_returned:
  assumes "Request_Context c ''db'' \<noteq> Some SqlxDB"
  shows "GetTrackHistory (Request_Context c) userID limit w
           = (Inl (New ''database connection not found in context''), w) \<and>
         getTrackHistory c userID w = (JSON 500 (ErrorBody ''Failed to get track history''), w) \<and>
         fst (GET_api_tracks_history c w) \<in>
           {JSON 401 (ErrorBody ''Authentication required''),
            JSON 401 (ErrorBody ''Invalid authentication''),
            JSON 500 (ErrorBody ''Failed to get track history'')}"
proof -
  have g: "GetTrackHistory (Request_Context c) u l w'
           = (Inl (New ''database connection not found in context''), w')" for u l w'
    using assms by (auto simp: GetTrackHistory_def split: option.splits ctx_value.splits)
  have h: "getTrackHistory c u w' = (JSON 500 (ErrorBody ''Failed to get track history''), w')" for u w'
    by (simp add: getTrackHistory_def g Let_def)
  show ?thesis
    by (auto simp: g h GET_api_tracks_history_def authMiddleware_def
        split: option.splits prod.splits sum.splits)
qed

theorem track_history_never_returned_witness:
  "fst (GET_api_tracks_history
         \<lparr>Cookie_user_id = Some ''u1'', Query_limit = ''5'', Request_Context = Map.empty\<rparr>
         (snd (SaveTrackToHistory (track_of_snapshot ''u1'' song 0) world_alice)))
     = JSON 500 (ErrorBody ''Failed to get track history'')"
proof -
  have a: "Request_Context \<lparr>Cookie_user_id = Some ''u1'', Query_limit = ''5'',
              Request_Context = Map.empty\<rparr> ''db'' \<noteq> Some SqlxDB"
    by simp
  have b: "fst (authMiddleware \<lparr>Cookie_user_id = Some ''u1'', Query_limit = ''5'',
              Request_Context = Map.empty\<rparr>
              (snd (SaveTrackToHistory (track_of_snapshot ''u1'' song 0) world_alice))) = Inr ''u1''"
    by (simp add: handler_defs sample_defs service_defs store_defs)
  show ?thesis
    using track_history_never_returned [OF a, of "''u1''" 5] b
    by (auto simp: GET_api_tracks_history_def split: prod.splits)
qed

text \<open>
  The failure is the missing context value alone: were a handle stored under \<open>"db"\<close>, the
  same handler would answer with the owner's latest tracks.
\<close>

lemma track_history_with_handle:
  "fst (getTrackHistory
         \<lparr>Cookie_user_id = Some ''u1'', Query_limit = ''1'', Request_Context = [''db'' \<mapsto> SqlxDB]\<rparr>
         ''u1''
         (SaveTrackToHistory_seq
            [track_of_snapshot ''u1'' song 0, track_of_snapshot ''u1'' song2 5] world_alice))
     = JSON 200 (TracksBody [track_of_snapshot ''u1'' song2 5])"
  by (simp add: handler_defs service_defs store_defs sample_defs strconv_Atoi_def is_digit_def
      digits_value_def Let_def)

end
